theory Spec2Isabelle
  imports Main
begin

section \<open>Python values and errors\<close>

text \<open>
  Exceptions of the Python source are values: a function that can raise returns
  \<open>error + 'a\<close>, with \<open>Inl\<close> for the exception. Besides the exceptions the
  source raises itself (\<open>ValueError\<close>, \<open>SyntaxError\<close>), the model has the ones
  the interpreter raises for the source's own expressions: indexing a list out of range,
  a missing dictionary key, a local variable read before it was bound, \<open>next\<close> on an
  exhausted generator, slicing \<open>None\<close>, and an attribute the object does not have.
\<close>

datatype error =
    ValueError string
  | SyntaxError string
  | IndexError
  | KeyError
  | UnboundLocalError
  | StopIteration
  | TypeError
  | AttributeError

definition ebind :: "error + 'a \<Rightarrow> ('a \<Rightarrow> error + 'b) \<Rightarrow> error + 'b" where
  "ebind m f = (case m of Inl e \<Rightarrow> Inl e | Inr x \<Rightarrow> f x)"

text \<open>
  Indexing a Python list, \<open>xs[i]\<close>. An index from \<open>-len(xs)\<close> up to \<open>-1\<close>
  is taken from the end of the list; outside \<open>-len(xs) .. len(xs) - 1\<close> the
  interpreter raises.
\<close>

definition py_index :: "'a list \<Rightarrow> int \<Rightarrow> error + 'a" where
  "py_index xs i =
     (if 0 \<le> i \<and> i < int (length xs) then Inr (xs ! nat i)
      else if i < 0 \<and> - int (length xs) \<le> i then Inr (xs ! nat (int (length xs) + i))
      else Inl IndexError)"

text \<open>Reading a local variable that only some branch of a loop assigns.\<close>

definition read_local :: "'a option \<Rightarrow> error + 'a" where
  "read_local v = (case v of None \<Rightarrow> Inl UnboundLocalError | Some x \<Rightarrow> Inr x)"

text \<open>Subscription of a dictionary, which raises on a key that is not there.\<close>

definition lookup :: "('k \<rightharpoonup> 'v) \<Rightarrow> 'k \<Rightarrow> error + 'v" where
  "lookup d k = (case d k of Some v \<Rightarrow> Inr v | None \<Rightarrow> Inl KeyError)"

section \<open>Data descriptors\<close>

text \<open>
  \<open>dace.dtypes.StorageType\<close> is declared outside the files at hand; the two members the
  source names are constructors, every other member is \<open>Other_Storage\<close> with its name.
\<close>

datatype StorageType = FPGA_Global | FPGA_Local | Other_Storage string

text \<open>
  \<open>dace.data.Array\<close>, with the attributes the source reads and writes. The type
  \<open>'n\<close> is the type of sizes: \<open>int\<close> where the source computes with them, and a type
  of symbolic expressions where it only hands them to the symbolic resolution service.
\<close>

record 'n Array =
  shape :: "'n list"
  strides :: "'n list"
  total_size :: "'n"
  offset :: "'n list"
  transient :: bool
  storage :: StorageType
  dtype :: string

section \<open>Batched matrix multiplication: \<open>get_batchmm_opts\<close>\<close>

text \<open>
  The dictionary the function returns is either empty or has exactly the keys
  \<open>sa\<close>, \<open>sb\<close>, \<open>sc\<close> and \<open>b\<close>: it is \<open>None\<close> for \<open>{}\<close> and
  \<open>Some\<close> of a record otherwise, and \<open>not bopt\<close> is \<open>bopt = None\<close>.
\<close>

record batchmm_opts =
  opt_sa :: int
  opt_sb :: int
  opt_sc :: int
  opt_b :: int

definition msg_too_large :: string where
  "msg_too_large = ''Tensor dimensions too large for (batched) matrix multiplication''"

definition msg_batch_mismatch :: string where
  "msg_batch_mismatch = ''Batch size mismatch for matrix multiplication''"

text \<open>
  Truth value of the local \<open>batch\<close> in \<open>if batch and ...\<close>: \<open>None\<close> is false, and so
  is the integer \<open>0\<close>.
\<close>

definition truthy :: "int option \<Rightarrow> bool" where
  "truthy v = (case v of None \<Rightarrow> False | Some n \<Rightarrow> n \<noteq> 0)"

text \<open>
  The block \<open>if len(a.shape) == 3: ...\<close>, which starts from \<open>batch = None\<close> and
  \<open>stride_a = 0\<close>.
\<close>

definition first_batch :: "int Array \<Rightarrow> error + (int option \<times> int)" where
  "first_batch a =
     (if length (shape a) = 3 then
        ebind (py_index (shape a) 0) (\<lambda>b0.
        ebind (py_index (strides a) 0) (\<lambda>s. Inr (Some b0, s)))
      else Inr (None, 0))"

text \<open>
  The blocks for \<open>b\<close> and for \<open>c\<close>, which are the same code: given the batch found
  so far, the new batch and the stride of \<open>x\<close>.
\<close>

definition next_batch :: "int option \<Rightarrow> int Array \<Rightarrow> error + (int option \<times> int)" where
  "next_batch batch x =
     (if length (shape x) = 3 then
        ebind (py_index (shape x) 0) (\<lambda>b0.
          if truthy batch \<and> batch \<noteq> Some b0 then Inl (ValueError msg_batch_mismatch)
          else ebind (py_index (strides x) 0) (\<lambda>s. Inr (Some b0, s)))
      else Inr (batch, 0))"

definition get_batchmm_opts ::
  "int Array \<Rightarrow> int Array \<Rightarrow> int Array option \<Rightarrow> error + batchmm_opts option" where
  "get_batchmm_opts a b c =
     (if 3 < length (shape a) \<or> 3 < length (shape b)
         \<or> (case c of None \<Rightarrow> False | Some c' \<Rightarrow> 3 < length (shape c'))
      then Inl (ValueError msg_too_large)
      else if length (shape a) \<le> 2 \<and> length (shape b) \<le> 2 then Inr None
      else
        ebind (first_batch a) (\<lambda>(batch, stride_a).
        ebind (next_batch batch b) (\<lambda>(batch, stride_b).
        ebind (case c of None \<Rightarrow> Inr (batch, 0) | Some c' \<Rightarrow> next_batch batch c')
          (\<lambda>(batch, stride_c).
        case batch of
          None \<Rightarrow> Inr None
        | Some bt \<Rightarrow>
            Inr (Some \<lparr>opt_sa = stride_a, opt_sb = stride_b, opt_sc = stride_c,
                       opt_b = bt\<rparr>)))))"

section \<open>The dataflow graph of a state\<close>

text \<open>
  A memlet names a data descriptor (\<open>None\<close> for an empty memlet) and an index subset, a
  list of \<open>(start, end, step)\<close> ranges. An edge of a state joins two nodes, with a
  connector name or \<open>None\<close> at either end, and carries a memlet (\<open>edge.data\<close> in the
  source; the memlet's own \<open>data\<close> is the name of the array). Nodes are numbered:
  two nodes with equal contents are still two nodes.
\<close>

type_synonym range = "int \<times> int \<times> int"

record memlet =
  data :: "string option"
  subset :: "range list"

record edge =
  src :: nat
  src_conn :: "string option"
  dst :: nat
  dst_conn :: "string option"
  memlet :: memlet

text \<open>
  A map scope is bounded by an entry and an exit node that share one \<open>Map\<close> object
  (\<open>node.map\<close>). The attributes of the object that the source reads and writes:
\<close>

record map_scope =
  label :: string
  params :: "string list"
  map_range :: "range list"
  schedule :: string
  unroll :: bool

text \<open>
  The node classes of \<open>dace.graph.nodes\<close> that the source tells apart with
  \<open>isinstance\<close>. \<open>CodeNode\<close> stands for tasklets, nested SDFGs and library nodes.
  An entry or exit node holds the number of its \<open>Map\<close> object, which the state
  keeps: assigning to \<open>me.map.range\<close> is seen through the exit node as well.
\<close>

datatype node =
    AccessNode string
  | CodeNode
  | EntryNode nat
  | ExitNode nat
  | OtherNode

text \<open>
  A state: its nodes in the order of \<open>state.nodes()\<close>, the class of every node, the
  \<open>Map\<close> objects, and its edges in the order of \<open>state.edges()\<close>.
\<close>

record SDFGState =
  nodes :: "nat list"
  kind :: "nat \<Rightarrow> node"
  maps :: "nat \<Rightarrow> map_scope"
  edges :: "edge list"

definition in_edges :: "SDFGState \<Rightarrow> nat \<Rightarrow> edge list" where
  "in_edges state n = filter (\<lambda>e. dst e = n) (edges state)"

definition out_edges :: "SDFGState \<Rightarrow> nat \<Rightarrow> edge list" where
  "out_edges state n = filter (\<lambda>e. src e = n) (edges state)"

text \<open>An SDFG: the registry of its data descriptors and its states.\<close>

record 'n SDFG =
  arrays :: "string \<rightharpoonup> 'n Array"
  states :: "SDFGState list"

text \<open>\<open>sdfg.arrays[e.data.data]\<close>; the name of an empty memlet is \<open>None\<close>, not a key.\<close>

definition array_of :: "'n SDFG \<Rightarrow> edge \<Rightarrow> error + 'n Array" where
  "array_of sdfg e =
     (case data (memlet e) of None \<Rightarrow> Inl KeyError | Some name \<Rightarrow> lookup (arrays sdfg) name)"

section \<open>The matrix multiplication library node\<close>

text \<open>
  \<open>Range.squeeze\<close> and \<open>Range.size\<close> of \<open>dace.subsets\<close> are not among the files at
  hand. Every function below that calls them takes their composition as the parameter
  \<open>squeezed_size\<close>: the sizes per dimension of a copy of the subset after
  \<open>squeeze()\<close>.
\<close>

definition msg_two_inputs :: string where
  "msg_two_inputs = ''Expected exactly two inputs to matrix-matrix product''"

definition msg_one_output :: string where
  "msg_one_output = ''Expected exactly one output from matrix-matrix product''"

definition msg_only_matrices :: string where
  "msg_only_matrices = ''matrix-matrix product only supported on matrices''"

definition msg_k_dimension :: string where
  "msg_k_dimension = ''Inputs to matrix-matrix product must agree in the k-dimension''"

definition msg_output_mn :: string where
  "msg_output_mn = ''Output to matrix-matrix product must agree in the m and n dimensions''"

definition msg_output_bmn :: string where
  "msg_output_bmn =
     ''Output to batch matrix-matrix product must agree in the b, m, and n dimensions''"

text \<open>
  The loop of \<open>validate\<close> over the input edges: the value of the local \<open>size0\<close>
  (connector \<open>_a\<close>) or \<open>size1\<close> (connector \<open>_b\<close>) after it, \<open>None\<close> when no edge
  assigned it. The last edge with the connector wins.
\<close>

definition size_at ::
  "(range list \<Rightarrow> int list) \<Rightarrow> string \<Rightarrow> edge list \<Rightarrow> int list option" where
  "size_at squeezed_size conn es =
     fold (\<lambda>e v. if dst_conn e = Some conn then Some (squeezed_size (subset (memlet e))) else v)
       es None"

definition MatMul_validate ::
  "(range list \<Rightarrow> int list) \<Rightarrow> int SDFG \<Rightarrow> SDFGState \<Rightarrow> nat \<Rightarrow> error + unit" where
  "MatMul_validate squeezed_size sdfg state self =
     (let ins = in_edges state self in
      if length ins \<noteq> 2 then Inl (ValueError msg_two_inputs)
      else
        let size0 = size_at squeezed_size ''_a'' ins;
            size1 = size_at squeezed_size ''_b'' ins;
            outs = out_edges state self
        in
        if length outs \<noteq> 1 then Inl (ValueError msg_one_output)
        else
          let out_memlet = memlet (outs ! 0) in
          ebind (array_of sdfg (ins ! 0)) (\<lambda>a.
          ebind (array_of sdfg (ins ! 1)) (\<lambda>b.
          ebind (array_of sdfg (outs ! 0)) (\<lambda>c.
          ebind (get_batchmm_opts a b (Some c)) (\<lambda>bopt.
          ebind
            (if bopt = None then
               ebind (read_local size0) (\<lambda>s0.
                 if length s0 \<noteq> 2 then Inl (ValueError msg_only_matrices)
                 else
                   ebind (read_local size1) (\<lambda>s1.
                     if length s1 \<noteq> 2 then Inl (ValueError msg_only_matrices)
                     else Inr ()))
             else Inr ())
            (\<lambda>_.
          ebind (read_local size0) (\<lambda>s0.
          ebind (py_index s0 (- 1)) (\<lambda>k0.
          ebind (read_local size1) (\<lambda>s1.
          ebind (py_index s1 (- 2)) (\<lambda>k1.
          if k0 \<noteq> k1 then Inl (ValueError msg_k_dimension)
          else
            let size2 = squeezed_size (subset out_memlet) in
            if length size2 \<noteq> 2 \<and> length size2 \<noteq> 3 then Inl (ValueError msg_only_matrices)
            else
              (case bopt of
                 None \<Rightarrow>
                   ebind (py_index s0 (- 2)) (\<lambda>m.
                   ebind (py_index s1 (- 1)) (\<lambda>n.
                   if size2 \<noteq> [m, n] then Inl (ValueError msg_output_mn) else Inr ()))
               | Some opts \<Rightarrow>
                   ebind (py_index s0 (- 2)) (\<lambda>m.
                   ebind (py_index s1 (- 1)) (\<lambda>n.
                   if size2 \<noteq> [opt_b opts, m, n] then Inl (ValueError msg_output_bmn)
                   else Inr ())))))))))))))"

text \<open>
  \<open>_get_matmul_inputs\<close>. \<open>find_input_arraynode\<close> of \<open>dace.sdfg\<close> is not among the
  files at hand: the parameter of that name gives, for an input edge, the \<open>data\<close> of
  the access node it finds. \<open>sdfg.data(name)\<close> is the descriptor registered under the
  name. A result is the edge, the outer array and the pair of the last two squeezed
  sizes.
\<close>

type_synonym matmul_input = "edge \<times> int Array \<times> (int \<times> int)"

definition msg_connectors :: string where
  "msg_connectors = ''Matrix multiplication input connectors \"_a\" and \"_b\" not found.''"

fun matmul_inputs_loop ::
  "(range list \<Rightarrow> int list) \<Rightarrow> (edge \<Rightarrow> string) \<Rightarrow> int SDFG \<Rightarrow> edge list \<Rightarrow>
   matmul_input option \<times> matmul_input option \<Rightarrow>
   error + (matmul_input option \<times> matmul_input option)" where
  "matmul_inputs_loop squeezed_size find_input_arraynode sdfg [] res = Inr res"
| "matmul_inputs_loop squeezed_size find_input_arraynode sdfg (e # es) (res_a, res_b) =
     (if dst_conn e = Some ''_a'' \<or> dst_conn e = Some ''_b'' then
        let sz = squeezed_size (subset (memlet e)) in
        ebind (lookup (arrays sdfg) (find_input_arraynode e)) (\<lambda>outer_array.
        ebind (py_index sz (- 2)) (\<lambda>r.
        ebind (py_index sz (- 1)) (\<lambda>c.
        let res = (e, outer_array, (r, c)) in
        if dst_conn e = Some ''_a''
        then matmul_inputs_loop squeezed_size find_input_arraynode sdfg es (Some res, res_b)
        else matmul_inputs_loop squeezed_size find_input_arraynode sdfg es (res_a, Some res))))
      else matmul_inputs_loop squeezed_size find_input_arraynode sdfg es (res_a, res_b))"

definition get_matmul_inputs ::
  "(range list \<Rightarrow> int list) \<Rightarrow> (edge \<Rightarrow> string) \<Rightarrow> int SDFG \<Rightarrow> SDFGState \<Rightarrow> nat \<Rightarrow>
   error + (matmul_input \<times> matmul_input)" where
  "get_matmul_inputs squeezed_size find_input_arraynode sdfg state n =
     ebind (matmul_inputs_loop squeezed_size find_input_arraynode sdfg (in_edges state n)
              (None, None))
       (\<lambda>(res_a, res_b).
          case res_a of
            None \<Rightarrow> Inl (ValueError msg_connectors)
          | Some ra \<Rightarrow>
              (case res_b of
                 None \<Rightarrow> Inl (ValueError msg_connectors)
               | Some rb \<Rightarrow> Inr (ra, rb)))"

text \<open>
  What \<open>ExpandMatMulPure.make_sdfg\<close> builds, as the arguments of its calls to the SDFG
  interface: the labels of the new SDFG and of its state, the arrays added with
  \<open>add_array\<close> in the order of the calls (name, shape, element type, storage), and the
  mapped tasklet (the map's parameters with the upper bound \<open>s\<close> of their range
  \<open>0:s\<close>, and the code). The element type of \<open>_c\<close> comes from
  \<open>numpy.result_type\<close> and the table \<open>DTYPE_TO_TYPECLASS\<close>, the parameter
  \<open>result_type\<close>.
\<close>

record added_array =
  array_name :: string
  array_shape :: "int list"
  array_dtype :: string
  array_storage :: StorageType

record pure_sdfg =
  sdfg_label :: string
  state_label :: string
  added_arrays :: "added_array list"
  map_ranges :: "(string \<times> int) list"
  tasklet_code :: string

definition msg_sizes_match :: string where
  "msg_sizes_match = ''Matrix sizes must match''"

definition msg_same_storage :: string where
  "msg_same_storage = ''Input matrices must have same storage''"

text \<open>The tuples \<open>shape_a\<close>, \<open>shape_b\<close> and \<open>shape_c\<close> are lists of length two.\<close>

definition make_sdfg ::
  "(range list \<Rightarrow> int list) \<Rightarrow> (edge \<Rightarrow> string) \<Rightarrow> (string \<Rightarrow> string \<Rightarrow> string) \<Rightarrow>
   string \<Rightarrow> int SDFG \<Rightarrow> SDFGState \<Rightarrow> nat \<Rightarrow> error + pure_sdfg" where
  "make_sdfg squeezed_size find_input_arraynode result_type node_label parent_sdfg parent_state n =
     ebind (get_matmul_inputs squeezed_size find_input_arraynode parent_sdfg parent_state n)
       (\<lambda>((edge_a, outer_array_a, (a0, a1)), (edge_b, outer_array_b, (b0, b1))).
          let shape_a = [a0, a1]; shape_b = [b0, b1] in
          if length shape_a \<noteq> 2 \<or> length shape_b \<noteq> 2 \<or> shape_a ! 1 \<noteq> shape_b ! 0
          then Inl (SyntaxError msg_sizes_match)
          else
            let shape_c = [shape_a ! 0, shape_b ! 1];
                dtype_a = dtype outer_array_a;
                dtype_b = dtype outer_array_b;
                dtype_c = result_type dtype_a dtype_b
            in
            if storage outer_array_a \<noteq> storage outer_array_b
            then Inl (ValueError msg_same_storage)
            else
              let st = storage outer_array_a;
                  array_a = \<lparr>array_name = ''_a'', array_shape = shape_a, array_dtype = dtype_a,
                             array_storage = st\<rparr>;
                  array_b = \<lparr>array_name = ''_b'', array_shape = shape_b, array_dtype = dtype_b,
                             array_storage = st\<rparr>;
                  array_c = \<lparr>array_name = ''_c'', array_shape = shape_c, array_dtype = dtype_c,
                             array_storage = st\<rparr>
              in
              Inr \<lparr>sdfg_label = node_label @ ''_sdfg'',
                   state_label = node_label @ ''_state'',
                   added_arrays = [array_a, array_b, array_c],
                   map_ranges = [(''__i0'', array_shape array_a ! 0),
                                 (''__i1'', array_shape array_b ! 1),
                                 (''__i2'', array_shape array_a ! 1)],
                   tasklet_code = ''__c = __a * __b''\<rparr>)"

definition msg_dtype_unset :: string where
  "msg_dtype_unset = ''Data type must be set to expand ''"

text \<open>
  \<open>ExpandMatMulPure.expansion\<close>: validation, the check of the node's own
  \<open>dtype\<close>, then \<open>make_sdfg\<close>.
\<close>

definition expansion ::
  "(range list \<Rightarrow> int list) \<Rightarrow> (edge \<Rightarrow> string) \<Rightarrow> (string \<Rightarrow> string \<Rightarrow> string) \<Rightarrow>
   string \<Rightarrow> string option \<Rightarrow> int SDFG \<Rightarrow> SDFGState \<Rightarrow> nat \<Rightarrow> error + pure_sdfg" where
  "expansion squeezed_size find_input_arraynode result_type node_label node_dtype sdfg state n =
     ebind (MatMul_validate squeezed_size sdfg state n) (\<lambda>_.
       case node_dtype of
         None \<Rightarrow> Inl (ValueError (msg_dtype_unset @ node_label @ ''.''))
       | Some _ \<Rightarrow> make_sdfg squeezed_size find_input_arraynode result_type node_label sdfg state n)"

section \<open>Example graphs\<close>

text \<open>
  Modelled from the spec: \<open>Range.size\<close> and \<open>Range.squeeze\<close>, which are not among the
  files at hand, for the examples only. A range \<open>(start, end, step)\<close> includes its end,
  and the squeezed sizes are the sizes with the "trivial-size-1" dimensions removed.
\<close>

definition ex_squeezed_size :: "range list \<Rightarrow> int list" where
  "ex_squeezed_size rs = filter (\<lambda>d. d \<noteq> 1) (map (\<lambda>(b, e, s). (e - b + 1) div s) rs)"

definition ex_array :: "int list \<Rightarrow> int list \<Rightarrow> int Array" where
  "ex_array sh st =
     \<lparr>shape = sh, strides = st, total_size = prod_list sh, offset = map (\<lambda>_. 0) sh,
      transient = False, storage = Other_Storage ''Default'', dtype = ''float32''\<rparr>"

definition full_range :: "int list \<Rightarrow> range list" where
  "full_range sh = map (\<lambda>s. (0, s - 1, 1)) sh"

text \<open>
  A state with access nodes \<open>A\<close> (node 0) and \<open>B\<close> (node 1) feeding the connectors
  \<open>_a\<close> and \<open>_b\<close> of a matrix multiplication (node 2), whose connector \<open>_c\<close>
  feeds the access node \<open>C\<close> (node 3); every memlet covers its whole array.
\<close>

definition ex_matmul_state :: "int list \<Rightarrow> int list \<Rightarrow> int list \<Rightarrow> SDFGState" where
  "ex_matmul_state sa sb sc =
     \<lparr>nodes = [0, 1, 2, 3],
      kind = (\<lambda>n. if n = 0 then AccessNode ''A'' else if n = 1 then AccessNode ''B''
                   else if n = 2 then CodeNode else AccessNode ''C''),
      maps = (\<lambda>m. \<lparr>label = [], params = [], map_range = [], schedule = [],
                       unroll = False\<rparr>),
      edges =
        [\<lparr>src = 0, src_conn = None, dst = 2, dst_conn = Some ''_a'',
          memlet = \<lparr>data = Some ''A'', subset = full_range sa\<rparr>\<rparr>,
         \<lparr>src = 1, src_conn = None, dst = 2, dst_conn = Some ''_b'',
          memlet = \<lparr>data = Some ''B'', subset = full_range sb\<rparr>\<rparr>,
         \<lparr>src = 2, src_conn = Some ''_c'', dst = 3, dst_conn = None,
          memlet = \<lparr>data = Some ''C'', subset = full_range sc\<rparr>\<rparr>]\<rparr>"

definition ex_matmul_sdfg :: "int Array \<Rightarrow> int Array \<Rightarrow> int Array \<Rightarrow> int SDFG" where
  "ex_matmul_sdfg a b c =
     \<lparr>arrays = [''A'' \<mapsto> a, ''B'' \<mapsto> b, ''C'' \<mapsto> c], states = []\<rparr>"

text \<open>The array an input edge of the example states comes from is the one its memlet names.\<close>

definition ex_find_input_arraynode :: "edge \<Rightarrow> string" where
  "ex_find_input_arraynode e = (case data (memlet e) of None \<Rightarrow> [] | Some name \<Rightarrow> name)"

text \<open>
  A batched product, \<open>A[2,3,4]\<close> times \<open>B[2,4,5]\<close> into \<open>C[2,3,5]\<close>, and a plain
  one, \<open>A[3,4]\<close> times \<open>B[4,5]\<close> into \<open>C[3,5]\<close>.
\<close>

definition ex_batched_sdfg :: "int SDFG" where
  "ex_batched_sdfg =
     ex_matmul_sdfg (ex_array [2, 3, 4] [12, 4, 1]) (ex_array [2, 4, 5] [20, 5, 1])
       (ex_array [2, 3, 5] [15, 5, 1])"

definition ex_batched_state :: SDFGState where
  "ex_batched_state = ex_matmul_state [2, 3, 4] [2, 4, 5] [2, 3, 5]"

definition ex_plain_sdfg :: "int SDFG" where
  "ex_plain_sdfg =
     ex_matmul_sdfg (ex_array [3, 4] [4, 1]) (ex_array [4, 5] [5, 1]) (ex_array [3, 5] [5, 1])"

definition ex_plain_state :: SDFGState where
  "ex_plain_state = ex_matmul_state [3, 4] [4, 5] [3, 5]"

text \<open>
  A product of \<open>A[0,2,2]\<close> and \<open>B[5,2,2]\<close> into \<open>C[5,2,2]\<close>: the leading
  dimensions of the two inputs are 0 and 5. And the plain product with the connector of
  its second input edge renamed, so that both input edges enter \<open>_a\<close>.
\<close>

definition ex_zero_batch_sdfg :: "int SDFG" where
  "ex_zero_batch_sdfg =
     ex_matmul_sdfg (ex_array [0, 2, 2] [4, 2, 1]) (ex_array [5, 2, 2] [4, 2, 1])
       (ex_array [5, 2, 2] [4, 2, 1])"

definition ex_zero_batch_state :: SDFGState where
  "ex_zero_batch_state = ex_matmul_state [0, 2, 2] [5, 2, 2] [5, 2, 2]"

definition ex_two_a_state :: SDFGState where
  "ex_two_a_state =
     ex_plain_state\<lparr>edges :=
       map (\<lambda>e. if dst_conn e = Some ''_b'' then e\<lparr>dst_conn := Some ''_a''\<rparr> else e)
         (edges ex_plain_state)\<rparr>"

section \<open>\<open>FPGAGlobalToLocal\<close>\<close>

text \<open>
  The SDFG the transformation gets, with its nested SDFGs, each named by a number; the
  states have numbers of their own. \<open>arrays_recursive\<close> lists the pairs of an SDFG and
  a name in the order in which \<open>sdfg.arrays_recursive()\<close> yields them, and \<open>desc_of\<close>
  is the descriptor of each pair. \<open>sd_states\<close> gives the states of an SDFG
  (\<open>sd.states()\<close>), \<open>all_nodes_recursive\<close> the pairs \<open>(node, graph)\<close> that
  \<open>state.all_nodes_recursive()\<close> yields, a node as its number and its kind and a graph
  as the number of the state, and \<open>parent\<close> the SDFG of a state (\<open>graph.parent\<close>).
  \<open>shared_transients\<close> is not among the files at hand and is given per SDFG.
\<close>

type_synonym array_key = "nat \<times> string"

record 'n SDFG_tree =
  arrays_recursive :: "array_key list"
  desc_of :: "array_key \<Rightarrow> 'n Array"
  shared_transients :: "nat \<Rightarrow> string list"
  sd_states :: "nat \<Rightarrow> nat list"
  all_nodes_recursive :: "nat \<Rightarrow> ((nat \<times> node) \<times> nat) list"
  parent :: "nat \<Rightarrow> nat"

text \<open>
  \<open>trace_nested_access\<close> of \<open>dace.sdfg\<close> is not among the files at hand either: the
  functions below take it as a parameter, from the number of the node, the graph and
  \<open>graph.parent\<close> to the list it returns. An entry of the list is
  \<open>(node_trace, memlet_trace, state_trace, sdfg_trace)\<close>; \<open>node_trace\<close> is a pair of
  access nodes or \<open>None\<close>, each access node given by its \<open>data\<close>, and
  \<open>memlet_trace\<close>, which \<open>apply\<close> never reads, is left out.
\<close>

record trace_entry =
  node_trace :: "string option \<times> string option"
  state_trace :: nat
  sdfg_trace :: nat

text \<open>
  The loop \<open>for node_trace, memlet_trace, state_trace, sdfg_trace in trace\<close>, on the
  local \<open>outer_node\<close>: an entry of the state and the SDFG assigns the second node of
  its pair, and the loop breaks when that node is not \<open>None\<close>.
\<close>

fun find_outer_node :: "nat \<Rightarrow> nat \<Rightarrow> trace_entry list \<Rightarrow> string option \<Rightarrow> string option" where
  "find_outer_node state sd [] outer_node = outer_node"
| "find_outer_node state sd (t # trace) outer_node =
     (if state_trace t = state \<and> sdfg_trace t = sd then
        (case snd (node_trace t) of
           None \<Rightarrow> find_outer_node state sd trace None
         | Some d \<Rightarrow> Some d)
      else find_outer_node state sd trace outer_node)"

text \<open>
  The loop \<open>for node, graph in state.all_nodes_recursive()\<close>: every access node whose
  outer node has the \<open>data\<close> \<open>name\<close> gets the storage of its own descriptor set.
  \<open>node.desc(graph)\<close> is the descriptor that \<open>graph.parent\<close> has for \<open>node.data\<close>,
  and raises when there is none.
\<close>

fun update_access_nodes ::
  "(nat \<Rightarrow> nat \<Rightarrow> nat \<Rightarrow> trace_entry list) \<Rightarrow> 'n SDFG_tree \<Rightarrow> nat \<Rightarrow> string \<Rightarrow> nat \<Rightarrow>
   ((nat \<times> node) \<times> nat) list \<Rightarrow> (array_key \<Rightarrow> 'n Array) \<Rightarrow>
   error + (array_key \<Rightarrow> 'n Array)" where
  "update_access_nodes trace_nested_access sdfg sd name state [] ds = Inr ds"
| "update_access_nodes trace_nested_access sdfg sd name state (((n, k), graph) # rest) ds =
     (case k of
        AccessNode d \<Rightarrow>
          (if find_outer_node state sd (trace_nested_access n graph (parent sdfg graph)) None
              = Some name
           then
             (if (parent sdfg graph, d) \<in> set (arrays_recursive sdfg)
              then update_access_nodes trace_nested_access sdfg sd name state rest
                     (ds((parent sdfg graph, d) :=
                           (ds (parent sdfg graph, d))\<lparr>storage := FPGA_Local\<rparr>))
              else Inl KeyError)
           else update_access_nodes trace_nested_access sdfg sd name state rest ds)
      | _ \<Rightarrow> update_access_nodes trace_nested_access sdfg sd name state rest ds)"

text \<open>The loop \<open>for state in sd.states()\<close>.\<close>

fun update_states ::
  "(nat \<Rightarrow> nat \<Rightarrow> nat \<Rightarrow> trace_entry list) \<Rightarrow> 'n SDFG_tree \<Rightarrow> nat \<Rightarrow> string \<Rightarrow> nat list \<Rightarrow>
   (array_key \<Rightarrow> 'n Array) \<Rightarrow> error + (array_key \<Rightarrow> 'n Array)" where
  "update_states trace_nested_access sdfg sd name [] ds = Inr ds"
| "update_states trace_nested_access sdfg sd name (state # rest) ds =
     ebind (update_access_nodes trace_nested_access sdfg sd name state
              (all_nodes_recursive sdfg state) ds)
       (update_states trace_nested_access sdfg sd name rest)"

text \<open>
  The loop over \<open>sdfg.arrays_recursive()\<close>, on the descriptors and the local
  \<open>count\<close>. \<open>resolve_symbol_to_constant\<close> of \<open>dace.symbolic\<close> is a parameter.
\<close>

fun arrays_loop ::
  "('n \<Rightarrow> int option) \<Rightarrow> (nat \<Rightarrow> nat \<Rightarrow> nat \<Rightarrow> trace_entry list) \<Rightarrow> 'n SDFG_tree \<Rightarrow>
   array_key list \<Rightarrow> (array_key \<Rightarrow> 'n Array) \<times> nat \<Rightarrow>
   error + ((array_key \<Rightarrow> 'n Array) \<times> nat)" where
  "arrays_loop resolve_symbol_to_constant trace_nested_access sdfg [] acc = Inr acc"
| "arrays_loop resolve_symbol_to_constant trace_nested_access sdfg ((sd, name) # rest)
     (ds, count) =
     (let desc = ds (sd, name) in
      if transient desc \<and> name \<notin> set (shared_transients sdfg sd)
         \<and> storage desc = FPGA_Global
      then
        (case resolve_symbol_to_constant (total_size desc) of
           None \<Rightarrow>
             arrays_loop resolve_symbol_to_constant trace_nested_access sdfg rest (ds, count)
         | Some _ \<Rightarrow>
             ebind
               (update_states trace_nested_access sdfg sd name (sd_states sdfg sd)
                  (ds((sd, name) := desc\<lparr>storage := FPGA_Local\<rparr>)))
               (\<lambda>ds'. arrays_loop resolve_symbol_to_constant trace_nested_access sdfg rest
                        (ds', count + 1)))
      else arrays_loop resolve_symbol_to_constant trace_nested_access sdfg rest (ds, count))"

text \<open>
  \<open>FPGAGlobalToLocal.apply\<close>: the SDFG after it, the final value of \<open>count\<close>, and
  what is printed (\<open>Some count\<close> for the line \<open>Applied count GlobalToLocal.\<close>).
  The configuration entry \<open>debugprint\<close> is a parameter.
\<close>

definition FPGAGlobalToLocal_apply ::
  "('n \<Rightarrow> int option) \<Rightarrow> (nat \<Rightarrow> nat \<Rightarrow> nat \<Rightarrow> trace_entry list) \<Rightarrow> bool \<Rightarrow> 'n SDFG_tree \<Rightarrow>
   error + ('n SDFG_tree \<times> nat \<times> nat option)"
  where
  "FPGAGlobalToLocal_apply resolve_symbol_to_constant trace_nested_access debugprint sdfg =
     ebind (arrays_loop resolve_symbol_to_constant trace_nested_access sdfg
              (arrays_recursive sdfg) (desc_of sdfg, 0))
       (\<lambda>(ds, count).
          Inr (sdfg\<lparr>desc_of := ds\<rparr>, count, if debugprint then Some count else None))"


text \<open>
  The arrays the claim speaks of: transient, not shared, stored as \<open>FPGA_Global\<close>,
  with a total size that resolves to a constant.
\<close>

definition qualifies :: "('n \<Rightarrow> int option) \<Rightarrow> 'n SDFG_tree \<Rightarrow> array_key \<Rightarrow> bool" where
  "qualifies resolve_symbol_to_constant sdfg k =
     (transient (desc_of sdfg k) \<and> snd k \<notin> set (shared_transients sdfg (fst k))
      \<and> storage (desc_of sdfg k) = FPGA_Global
      \<and> resolve_symbol_to_constant (total_size (desc_of sdfg k)) \<noteq> None)"

text \<open>
  A trace names an array of an SDFG in a state: among the entries of that state and
  SDFG whose pair has a second node, the first has the \<open>data\<close> \<open>name\<close>.
\<close>

definition names_array :: "nat \<Rightarrow> nat \<Rightarrow> string \<Rightarrow> trace_entry list \<Rightarrow> bool" where
  "names_array state sd name trace =
     (case filter (\<lambda>t. state_trace t = state \<and> sdfg_trace t = sd \<and> snd (node_trace t) \<noteq> None)
             trace of
        [] \<Rightarrow> False
      | t # _ \<Rightarrow> snd (node_trace t) = Some name)"

text \<open>
  The descriptor \<open>k'\<close> refers to the array \<open>k\<close>: it is the descriptor of an access
  node, found from a state of the SDFG of \<open>k\<close>, whose trace names \<open>k\<close> in that state.
\<close>

definition node_refers ::
  "(nat \<Rightarrow> nat \<Rightarrow> nat \<Rightarrow> trace_entry list) \<Rightarrow> 'n SDFG_tree \<Rightarrow> nat \<Rightarrow> nat \<Rightarrow> string \<Rightarrow>
   (nat \<times> node) \<times> nat \<Rightarrow> array_key \<Rightarrow> bool" where
  "node_refers trace_nested_access sdfg state sd name x k' =
     (case x of
        ((n, kd), graph) \<Rightarrow>
          kd = AccessNode (snd k') \<and> parent sdfg graph = fst k'
        \<and> names_array state sd name (trace_nested_access n graph (parent sdfg graph)))"

definition refers_to ::
  "(nat \<Rightarrow> nat \<Rightarrow> nat \<Rightarrow> trace_entry list) \<Rightarrow> 'n SDFG_tree \<Rightarrow> array_key \<Rightarrow> array_key \<Rightarrow> bool"
  where
  "refers_to trace_nested_access sdfg k' k =
     (\<exists>state \<in> set (sd_states sdfg (fst k)).
        \<exists>x \<in> set (all_nodes_recursive sdfg state).
          node_refers trace_nested_access sdfg state (fst k) (snd k) x k')"

text \<open>
  Setting the storage of the descriptors in \<open>S\<close>, and the descriptors reclassified on
  account of the arrays among \<open>ks\<close>: each qualifying array and the descriptors that
  refer to it.
\<close>

definition set_local ::
  "array_key set \<Rightarrow> (array_key \<Rightarrow> 'n Array) \<Rightarrow> array_key \<Rightarrow> 'n Array" where
  "set_local S ds = (\<lambda>k. if k \<in> S then (ds k)\<lparr>storage := FPGA_Local\<rparr> else ds k)"

definition reclassified ::
  "('n \<Rightarrow> int option) \<Rightarrow> (nat \<Rightarrow> nat \<Rightarrow> nat \<Rightarrow> trace_entry list) \<Rightarrow> 'n SDFG_tree \<Rightarrow>
   array_key list \<Rightarrow> array_key set" where
  "reclassified resolve_symbol_to_constant trace_nested_access sdfg ks =
     {k'. \<exists>k. k \<in> set ks \<and> qualifies resolve_symbol_to_constant sdfg k
              \<and> (k' = k \<or> refers_to trace_nested_access sdfg k' k)}"

text \<open>
  The access nodes of an SDFG name descriptors it has: then \<open>node.desc(graph)\<close> raises
  nothing.
\<close>

definition nodes_registered :: "'n SDFG_tree \<Rightarrow> bool" where
  "nodes_registered sdfg =
     (\<forall>state n d graph. ((n, AccessNode d), graph) \<in> set (all_nodes_recursive sdfg state)
        \<longrightarrow> (parent sdfg graph, d) \<in> set (arrays_recursive sdfg))"

text \<open>
  Modelled from the spec: \<open>resolve_to_constant(expression, context) -> integer | none\<close>,
  which is not among the files at hand, for the examples only. A size is an integer or
  a symbol; an integer resolves to itself and a symbol to nothing.
\<close>

datatype symbolic = Integer int | Symbol string

definition ex_resolve :: "symbolic \<Rightarrow> int option" where
  "ex_resolve e = (case e of Integer n \<Rightarrow> Some n | Symbol s \<Rightarrow> None)"

text \<open>
  An SDFG (number 0, with the state 10) with the transient \<open>tmp\<close> of eight elements
  and the argument \<open>A\<close> of \<open>N\<close> elements, both stored as \<open>FPGA_Global\<close>. In the
  state the access node 1 of \<open>tmp\<close> is read by a nested SDFG (node 2; number 1, with
  the state 11), which writes the access node 6 of \<open>tmp\<close>. Inside, the access node 3
  of \<open>_in\<close> is read and the access node 5 of \<open>_out\<close> is written by the node 4;
  \<open>_in\<close> and \<open>_out\<close> are not transient.
\<close>

definition ex_fpga_desc :: "bool \<Rightarrow> symbolic \<Rightarrow> symbolic Array" where
  "ex_fpga_desc tr n =
     \<lparr>shape = [n], strides = [Integer 1], total_size = n, offset = [Integer 0],
      transient = tr, storage = FPGA_Global, dtype = ''float32''\<rparr>"

definition ex_fpga_sdfg :: "symbolic SDFG_tree" where
  "ex_fpga_sdfg =
     \<lparr>arrays_recursive = [(0, ''tmp''), (0, ''A''), (1, ''_in''), (1, ''_out'')],
      desc_of = (\<lambda>k. if k = (0, ''tmp'') then ex_fpga_desc True (Integer 8)
                     else if k = (0, ''A'') then ex_fpga_desc False (Symbol ''N'')
                     else ex_fpga_desc False (Integer 8)),
      shared_transients = (\<lambda>sd. []),
      sd_states = (\<lambda>sd. if sd = 0 then [10] else if sd = 1 then [11] else []),
      all_nodes_recursive =
        (\<lambda>state. if state = 10
                  then [((0, AccessNode ''A''), 10), ((1, AccessNode ''tmp''), 10),
                        ((2, OtherNode), 10), ((3, AccessNode ''_in''), 11),
                        ((4, CodeNode), 11), ((5, AccessNode ''_out''), 11),
                        ((6, AccessNode ''tmp''), 10)]
                  else if state = 11
                  then [((3, AccessNode ''_in''), 11), ((4, CodeNode), 11),
                        ((5, AccessNode ''_out''), 11)]
                  else []),
      parent = (\<lambda>graph. if graph = 10 then 0 else 1)\<rparr>"

text \<open>
  The parameter \<open>trace_nested_access\<close> for the example. The trace of an access node
  goes from the outermost SDFG to the node's own, and the pair of an entry holds the
  node that is read there, or the node that is written.
\<close>

definition ex_trace :: "nat \<Rightarrow> nat \<Rightarrow> nat \<Rightarrow> trace_entry list" where
  "ex_trace n graph sdfg =
     (if n = 0 then [\<lparr>node_trace = (Some ''A'', None), state_trace = 10, sdfg_trace = 0\<rparr>]
      else if n = 1
      then [\<lparr>node_trace = (Some ''tmp'', None), state_trace = 10, sdfg_trace = 0\<rparr>]
      else if n = 3
      then [\<lparr>node_trace = (Some ''tmp'', None), state_trace = 10, sdfg_trace = 0\<rparr>,
            \<lparr>node_trace = (Some ''_in'', None), state_trace = 11, sdfg_trace = 1\<rparr>]
      else if n = 5
      then [\<lparr>node_trace = (None, Some ''tmp''), state_trace = 10, sdfg_trace = 0\<rparr>,
            \<lparr>node_trace = (None, Some ''_out''), state_trace = 11, sdfg_trace = 1\<rparr>]
      else if n = 6
      then [\<lparr>node_trace = (None, Some ''tmp''), state_trace = 10, sdfg_trace = 0\<rparr>]
      else [])"

section \<open>Map fission: subgraphs and components\<close>

text \<open>
  What \<open>MapFission\<close> calls a subgraph is either a state or a \<open>SubgraphView\<close> of
  one: \<open>graph\<close> is the state (\<open>subgraph.graph\<close>, or the state itself),
  \<open>is_state\<close> the test \<open>isinstance(subgraph, sd.SDFGState)\<close>, and \<open>sg_nodes\<close>
  the nodes of the view (\<open>subgraph.nodes()\<close>).
\<close>

record subgraph =
  graph :: SDFGState
  is_state :: bool
  sg_nodes :: "nat list"

definition state_view :: "SDFGState \<Rightarrow> subgraph" where
  "state_view st = \<lparr>graph = st, is_state = True, sg_nodes = nodes st\<rparr>"

text \<open>
  The functions of the \<open>dace\<close> library that the transformation calls and that are not
  among the files at hand are parameters, collected in one record:
  \<open>sd.has_dynamic_map_inputs(graph, map_node)\<close>;
  the nodes of the view
  \<open>graph.scope_subgraph(map_node, include_entry=False, include_exit=False)\<close>;
  \<open>subgraph.scope_dict(node_to_children=True)[None]\<close>;
  \<open>graph.exit_nodes(entry)\<close>; \<open>Range.size()\<close>; \<open>Range.from_array(desc)\<close>;
  and \<open>add_temp_transient\<close>, which from the registry, the shape and the descriptor
  of the scalar (for the element type, the storage and the flags that are passed on)
  gives the new name and the new descriptor.
\<close>

record dace_api =
  has_dynamic_map_inputs :: "SDFGState \<Rightarrow> nat \<Rightarrow> bool"
  scope_subgraph :: "SDFGState \<Rightarrow> nat \<Rightarrow> nat list"
  scope_children :: "subgraph \<Rightarrow> nat list"
  exit_nodes :: "SDFGState \<Rightarrow> nat \<Rightarrow> nat list"
  range_size :: "range list \<Rightarrow> int list"
  from_array :: "int Array \<Rightarrow> range list"
  add_temp_transient :: "(string \<rightharpoonup> int Array) \<Rightarrow> int list \<Rightarrow> int Array \<Rightarrow> string \<times> int Array"

text \<open>
  The edges of a view are the edges of the graph between its nodes; its source and
  sink nodes are the nodes without an edge into, or out of, them in the view.
\<close>

definition sg_in_edges :: "subgraph \<Rightarrow> nat \<Rightarrow> edge list" where
  "sg_in_edges sg n =
     (if is_state sg then in_edges (graph sg) n
      else filter (\<lambda>e. src e \<in> set (sg_nodes sg)) (in_edges (graph sg) n))"

definition sg_out_edges :: "subgraph \<Rightarrow> nat \<Rightarrow> edge list" where
  "sg_out_edges sg n =
     (if is_state sg then out_edges (graph sg) n
      else filter (\<lambda>e. dst e \<in> set (sg_nodes sg)) (out_edges (graph sg) n))"

definition source_nodes :: "subgraph \<Rightarrow> nat list" where
  "source_nodes sg = filter (\<lambda>n. sg_in_edges sg n = []) (sg_nodes sg)"

definition sink_nodes :: "subgraph \<Rightarrow> nat list" where
  "sink_nodes sg = filter (\<lambda>n. sg_out_edges sg n = []) (sg_nodes sg)"

text \<open>\<open>[n.data]\<close> for an access node \<open>n\<close>, and nothing for a node of another class.\<close>

definition access_data :: "SDFGState \<Rightarrow> nat \<Rightarrow> string list" where
  "access_data g n = (case kind g n of AccessNode d \<Rightarrow> [d] | _ \<Rightarrow> [])"

text \<open>
  \<open>MapFission._components\<close>: the list comprehension over the top-level nodes of the
  subgraph. The exit node of an entry node is \<open>graph.exit_nodes(n)[0]\<close>.
\<close>

fun components_of :: "dace_api \<Rightarrow> SDFGState \<Rightarrow> nat list \<Rightarrow> error + (nat \<times> nat) list" where
  "components_of lib g [] = Inr []"
| "components_of lib g (n # ns) =
     (case kind g n of
        EntryNode m \<Rightarrow>
          ebind (py_index (exit_nodes lib g n) 0) (\<lambda>x.
          ebind (components_of lib g ns) (\<lambda>rest. Inr ((n, x) # rest)))
      | CodeNode \<Rightarrow> ebind (components_of lib g ns) (\<lambda>rest. Inr ((n, n) # rest))
      | _ \<Rightarrow> components_of lib g ns)"

definition components :: "dace_api \<Rightarrow> subgraph \<Rightarrow> error + (nat \<times> nat) list" where
  "components lib sg = components_of lib (graph sg) (scope_children lib sg)"

text \<open>
  \<open>MapFission._border_arrays\<close> and \<open>MapFission._internal_border_arrays\<close>. A Python
  set of names is a list without repetitions, in the order of the first insertion; the
  order in which Python iterates over a set is not specified, and nothing proved below
  depends on it.
\<close>

definition border_arrays ::
  "(nat \<times> nat) list \<Rightarrow> subgraph \<Rightarrow> nat list \<Rightarrow> nat list \<Rightarrow> string list" where
  "border_arrays cs sg sources sinks =
     (let use_sources_sinks = \<not> is_state sg in
      remdups (concat (map (\<lambda>(component_in, component_out).
          concat (map (\<lambda>e. if use_sources_sinks \<or> src e \<notin> set sources
                           then access_data (graph sg) (src e) else [])
                    (sg_in_edges sg component_in))
        @ concat (map (\<lambda>e. if use_sources_sinks \<or> dst e \<notin> set sinks
                           then access_data (graph sg) (dst e) else [])
                    (sg_out_edges sg component_out)))
        cs)))"

definition component_inputs :: "(nat \<times> nat) list \<Rightarrow> subgraph \<Rightarrow> string list" where
  "component_inputs cs sg =
     concat (map (\<lambda>(component_in, component_out).
       concat (map (\<lambda>e. access_data (graph sg) (src e)) (sg_in_edges sg component_in))) cs)"

definition component_outputs :: "(nat \<times> nat) list \<Rightarrow> subgraph \<Rightarrow> string list" where
  "component_outputs cs sg =
     concat (map (\<lambda>(component_in, component_out).
       concat (map (\<lambda>e. access_data (graph sg) (dst e)) (sg_out_edges sg component_out))) cs)"

definition internal_border_arrays :: "(nat \<times> nat) list \<Rightarrow> subgraph \<Rightarrow> string list" where
  "internal_border_arrays cs sg =
     remdups (filter (\<lambda>d. d \<in> set (component_outputs cs sg)) (component_inputs cs sg))"

section \<open>Map fission: \<open>can_be_applied\<close>\<close>

text \<open>
  The loop \<open>for array in border_arrays\<close>: \<open>False\<close> stands for \<open>return False\<close>,
  \<open>True\<close> for the end of the loop.
\<close>

fun all_transient :: "(string \<rightharpoonup> int Array) \<Rightarrow> string list \<Rightarrow> error + bool" where
  "all_transient arrs [] = Inr True"
| "all_transient arrs (a # rest) =
     ebind (lookup arrs a) (\<lambda>ndesc.
       if transient ndesc = False then Inr False else all_transient arrs rest)"

text \<open>
  The set \<open>not_subgraph\<close>: the data of the access nodes of the graph outside the
  subgraph, and of the access nodes of the other states. \<open>state_id\<close> is the position
  of the graph among \<open>sdfg.nodes()\<close>; it stands for the test \<open>s != graph\<close>, which
  compares states as objects.
\<close>

definition not_subgraph :: "int SDFG \<Rightarrow> nat \<Rightarrow> SDFGState \<Rightarrow> nat list \<Rightarrow> string list" where
  "not_subgraph sdfg state_id g snodes =
     concat (map (access_data g) (filter (\<lambda>n. n \<notin> set snodes) (nodes g)))
     @ concat (map (\<lambda>s. concat (map (access_data s) (nodes s)))
         (take state_id (states sdfg) @ drop (Suc state_id) (states sdfg)))"

text \<open>
  The body of the loop \<open>for sg in subgraphs\<close>: \<open>False\<close> stands for
  \<open>return False\<close>, \<open>True\<close> for reaching the end of the body. \<open>nsdfg\<close> is the SDFG
  of the nested SDFG node of the candidate (\<open>nsdfg_node.sdfg\<close>).
\<close>

definition test_subgraph ::
  "dace_api \<Rightarrow> nat \<Rightarrow> int SDFG \<Rightarrow> nat \<Rightarrow> SDFGState \<Rightarrow> int SDFG \<Rightarrow> subgraph \<Rightarrow> error + bool" where
  "test_subgraph lib expr_index sdfg state_id g nsdfg sg =
     ebind (components lib sg) (\<lambda>cs.
       let snodes = sg_nodes sg;
           sources = source_nodes sg;
           sinks = sink_nodes sg
       in
       if 0 < length snodes \<and> length cs \<le> 1 then Inr False
       else
         let border = border_arrays cs sg sources sinks;
             external_arrays =
               filter (\<lambda>a. a \<notin> set (internal_border_arrays cs sg)) border
         in
         if 0 < length external_arrays then Inr False
         else
           ebind (all_transient (if expr_index = 0 then arrays sdfg else arrays nsdfg) border)
             (\<lambda>ok.
                if ok = False then Inr False
                else if expr_index = 0 then
                  (if list_ex (\<lambda>d. d \<in> set (not_subgraph sdfg state_id g snodes))
                        (component_outputs cs sg)
                   then Inr False else Inr True)
                else Inr True))"

fun test_subgraphs ::
  "dace_api \<Rightarrow> nat \<Rightarrow> int SDFG \<Rightarrow> nat \<Rightarrow> SDFGState \<Rightarrow> int SDFG \<Rightarrow> subgraph list \<Rightarrow>
   error + bool" where
  "test_subgraphs lib expr_index sdfg state_id g nsdfg [] = Inr True"
| "test_subgraphs lib expr_index sdfg state_id g nsdfg (sg # rest) =
     ebind (test_subgraph lib expr_index sdfg state_id g nsdfg sg) (\<lambda>ok.
       if ok = False then Inr False
       else test_subgraphs lib expr_index sdfg state_id g nsdfg rest)"

text \<open>
  The list \<open>subgraphs\<close> of \<open>can_be_applied\<close> and of \<open>apply\<close>: the view of the
  scope of the map for the first expression, the states of the nested SDFG for the
  second.
\<close>

definition scope_view :: "dace_api \<Rightarrow> SDFGState \<Rightarrow> nat \<Rightarrow> subgraph" where
  "scope_view lib g map_node =
     \<lparr>graph = g, is_state = False, sg_nodes = scope_subgraph lib g map_node\<rparr>"

definition subgraphs_of :: "dace_api \<Rightarrow> SDFGState \<Rightarrow> nat \<Rightarrow> int SDFG \<Rightarrow> nat \<Rightarrow> subgraph list" where
  "subgraphs_of lib g map_node nsdfg expr_index =
     (if expr_index = 0 then [scope_view lib g map_node] else map state_view (states nsdfg))"

text \<open>
  \<open>MapFission.can_be_applied\<close>. The candidate gives the map entry node and, for the
  second expression, the nested SDFG node, of which only the SDFG is read.
\<close>

definition MapFission_can_be_applied ::
  "dace_api \<Rightarrow> SDFGState \<Rightarrow> nat \<Rightarrow> nat \<Rightarrow> int SDFG \<Rightarrow> nat \<Rightarrow> int SDFG \<Rightarrow> error + bool" where
  "MapFission_can_be_applied lib g state_id map_node nsdfg expr_index sdfg =
     (if has_dynamic_map_inputs lib g map_node then Inr False
      else if expr_index \<noteq> 0 \<and> 1 < length (remdups (map dst (out_edges g map_node)))
      then Inr False
      else test_subgraphs lib expr_index sdfg state_id g nsdfg
             (subgraphs_of lib g map_node nsdfg expr_index))"

text \<open>
  What the claim on rejected candidates speaks of, for one tested subgraph: the
  subgraph has nodes and at most one component; or a border array is registered as not
  transient; or, for the first expression, a border array is the data of an access node
  outside the subgraph or in another state.
\<close>

definition violates ::
  "dace_api \<Rightarrow> nat \<Rightarrow> int SDFG \<Rightarrow> nat \<Rightarrow> SDFGState \<Rightarrow> int SDFG \<Rightarrow> subgraph \<Rightarrow> bool" where
  "violates lib expr_index sdfg state_id g nsdfg sg =
     (\<exists>cs. components lib sg = Inr cs \<and>
        (sg_nodes sg \<noteq> [] \<and> length cs \<le> 1
         \<or> (\<exists>a d. a \<in> set (border_arrays cs sg (source_nodes sg) (sink_nodes sg))
                \<and> (if expr_index = 0 then arrays sdfg else arrays nsdfg) a = Some d
                \<and> \<not> transient d)
         \<or> (expr_index = 0 \<and>
             (\<exists>a. a \<in> set (border_arrays cs sg (source_nodes sg) (sink_nodes sg))
                \<and> a \<in> set (not_subgraph sdfg state_id g (sg_nodes sg))))))"

text \<open>
  Two invariants of the data model, under which \<open>can_be_applied\<close> raises nothing:
  every entry node at the top level of a subgraph has an exit node, and the data of
  every access node is registered in the SDFG of its state.
\<close>

definition registered :: "(string \<rightharpoonup> int Array) \<Rightarrow> SDFGState \<Rightarrow> bool" where
  "registered arrs g = (\<forall>n d. kind g n = AccessNode d \<longrightarrow> arrs d \<noteq> None)"

definition exits_exist :: "dace_api \<Rightarrow> subgraph \<Rightarrow> bool" where
  "exits_exist lib sg =
     list_all (\<lambda>n. case kind (graph sg) n of
                     EntryNode m \<Rightarrow> exit_nodes lib (graph sg) n \<noteq> []
                   | _ \<Rightarrow> True)
       (scope_children lib sg)"

definition well_formed :: "dace_api \<Rightarrow> nat \<Rightarrow> int SDFG \<Rightarrow> int SDFG \<Rightarrow> subgraph \<Rightarrow> bool" where
  "well_formed lib expr_index sdfg nsdfg sg =
     (exits_exist lib sg
      \<and> registered (if expr_index = 0 then arrays sdfg else arrays nsdfg) (graph sg))"

section \<open>The matching stage on a store\<close>

text \<open>
  \<open>can_be_applied\<close> once more, with the objects it is given held in a store: the
  graph, the SDFG, and the SDFG of the nested SDFG node. A statement is an action, from
  the store to its result (a value or an exception) and the store after it. The three
  ways to build one: \<open>done_with\<close>, a \<open>return\<close>; \<open>look\<close>, an expression that reads
  the store; and \<open>and_then\<close>, one statement after another, where an exception ends
  the run. The functions of the library are taken to read only, as the parameters they
  are.
\<close>

record store =
  st_graph :: SDFGState
  st_sdfg :: "int SDFG"
  st_nsdfg :: "int SDFG"

type_synonym 'a action = "store \<Rightarrow> (error + 'a) \<times> store"


definition look :: "(store \<Rightarrow> error + 'a) \<Rightarrow> 'a action" where
  "look f = (\<lambda>s. (f s, s))"

definition and_then :: "'a action \<Rightarrow> ('a \<Rightarrow> 'b action) \<Rightarrow> 'b action" where
  "and_then m f =
     (\<lambda>s. case m s of (Inl e, s') \<Rightarrow> (Inl e, s') | (Inr x, s') \<Rightarrow> f x s')"






section \<open>Map fission: \<open>apply\<close>\<close>

text \<open>
  The model of \<open>apply\<close> follows the descriptors of the arrays, the nodes and
  \<open>Map\<close> objects of the states, and the edges of the graph that holds the map of a
  nested SDFG. The rewiring of the edges inside a fissioned state (through
  \<open>memlet_path\<close>, \<open>fill_scope_connectors\<close> and \<open>memlet_tree\<close>, which are not
  among the files at hand) is left out: a fissioned state keeps the edges it had, and
  every decision of \<open>apply\<close> that is modelled reads the state as it was before.
\<close>

text \<open>The loop \<open>for sz in reversed(mapsize)\<close> and the two assignments after it.\<close>

definition augment :: "int list \<Rightarrow> int Array \<Rightarrow> int Array" where
  "augment mapsize desc =
     (let d = fold (\<lambda>sz d. d\<lparr>strides := total_size d # strides d,
                              total_size := total_size d * sz\<rparr>) (rev mapsize) desc
      in d\<lparr>shape := mapsize @ shape d,
           offset := replicate (length mapsize) 0 @ offset d\<rparr>)"

fun augment_arrays ::
  "int list \<Rightarrow> string list \<Rightarrow> (string \<rightharpoonup> int Array) \<Rightarrow> error + (string \<rightharpoonup> int Array)" where
  "augment_arrays mapsize [] arrs = Inr arrs"
| "augment_arrays mapsize (a # rest) arrs =
     ebind (lookup arrs a) (\<lambda>desc.
       augment_arrays mapsize rest (arrs(a \<mapsto> augment mapsize desc)))"

text \<open>
  Adding a node to a state gives it a number that no node of the state has; a new
  \<open>Map\<close> object gets a number that no entry or exit node of the state holds.
\<close>

definition fresh_node :: "SDFGState \<Rightarrow> nat" where
  "fresh_node st = Suc (fold max (nodes st) 0)"

definition add_node :: "node \<Rightarrow> SDFGState \<Rightarrow> SDFGState" where
  "add_node k st =
     st\<lparr>nodes := nodes st @ [fresh_node st], kind := (kind st)(fresh_node st := k)\<rparr>"

definition used_maps :: "SDFGState \<Rightarrow> nat list" where
  "used_maps st =
     concat (map (\<lambda>n. case kind st n of EntryNode m \<Rightarrow> [m] | ExitNode m \<Rightarrow> [m] | _ \<Rightarrow> [])
               (nodes st))"

definition fresh_map :: "SDFGState \<Rightarrow> nat" where
  "fresh_map st = Suc (fold max (used_maps st) 0)"

text \<open>
  \<open>state.add_map(label, [(p, '0:1') for p in params], schedule, unroll=unroll)\<close>: the
  entry node, the exit node, the number of the new \<open>Map\<close> object, and the state.
\<close>

definition add_map ::
  "string \<Rightarrow> string list \<Rightarrow> string \<Rightarrow> bool \<Rightarrow> SDFGState \<Rightarrow> (nat \<times> nat \<times> nat) \<times> SDFGState" where
  "add_map lbl ps sched unr st =
     (let m = fresh_map st;
          st1 = add_node (EntryNode m) st;
          st2 = add_node (ExitNode m) st1
      in ((fresh_node st, fresh_node st1, m),
          st2\<lparr>maps := (maps st2)(m := \<lparr>label = lbl, params = ps,
                                       map_range = map (\<lambda>p. (0, 0, 1)) ps,
                                       schedule = sched, unroll = unr\<rparr>)\<rparr>))"

text \<open>
  One round of the loop \<open>for component_in, component_out in components\<close>, without
  the edges: the new map, and the assignment \<open>me.map.range = dcpy(outer_map.range)\<close>.
\<close>

definition add_component_map :: "map_scope \<Rightarrow> SDFGState \<Rightarrow> nat \<times> SDFGState" where
  "add_component_map outer_map st =
     (case add_map (label outer_map @ ''_fission'') (params outer_map) (schedule outer_map)
             (unroll outer_map) st of
        ((me, mx, m), st1) \<Rightarrow>
          (me, st1\<lparr>maps := (maps st1)(m := (maps st1 m)\<lparr>map_range := map_range outer_map\<rparr>)\<rparr>))"

fun add_maps :: "map_scope \<Rightarrow> (nat \<times> nat) list \<Rightarrow> nat list \<times> SDFGState \<Rightarrow> nat list \<times> SDFGState"
  where
  "add_maps outer_map [] acc = acc"
| "add_maps outer_map (c # cs) (new_map_entries, st) =
     (case add_component_map outer_map st of
        (me, st1) \<Rightarrow> add_maps outer_map cs (new_map_entries @ [me], st1))"

text \<open>
  The dictionary \<open>scalars\<close>: the edges from a component to a code node, by the name
  of their memlet, in the order in which the names come up.
\<close>

definition scalar_edges :: "(nat \<times> nat) list \<Rightarrow> subgraph \<Rightarrow> edge list" where
  "scalar_edges cs sg =
     concat (map (\<lambda>(component_in, component_out).
       filter (\<lambda>e. kind (graph sg) (dst e) = CodeNode) (sg_out_edges sg component_out)) cs)"

definition scalars :: "(nat \<times> nat) list \<Rightarrow> subgraph \<Rightarrow> (string option \<times> edge list) list" where
  "scalars cs sg =
     (let es = scalar_edges cs sg in
      map (\<lambda>k. (k, filter (\<lambda>e. data (memlet e) = k) es))
        (remdups (map (\<lambda>e. data (memlet e)) es)))"

text \<open>
  The loop \<open>for scalar, edges in scalars.items()\<close>: a new transient, and one new
  access node for every edge.
\<close>

fun add_scalars ::
  "dace_api \<Rightarrow> int list \<Rightarrow> (string option \<times> edge list) list \<Rightarrow>
   SDFGState \<times> (string \<rightharpoonup> int Array) \<Rightarrow> error + (SDFGState \<times> (string \<rightharpoonup> int Array))" where
  "add_scalars lib mapsize [] acc = Inr acc"
| "add_scalars lib mapsize ((scalar, es) # rest) (st, arrs) =
     ebind (case scalar of None \<Rightarrow> Inl KeyError | Some s \<Rightarrow> lookup arrs s) (\<lambda>desc.
       case add_temp_transient lib arrs mapsize desc of
         (name, newdesc) \<Rightarrow>
           add_scalars lib mapsize rest
             (fold (\<lambda>edge. add_node (AccessNode name)) es st, arrs(name \<mapsto> newdesc)))"

text \<open>\<open>next(e for e in es if P(e))\<close>.\<close>

definition next_edge :: "(edge \<Rightarrow> bool) \<Rightarrow> edge list \<Rightarrow> error + edge" where
  "next_edge P es = (case filter P es of [] \<Rightarrow> Inl StopIteration | e # _ \<Rightarrow> Inr e)"

text \<open>
  The dictionary \<open>edge_to_outer\<close> for a nested SDFG: for the access nodes among the
  source and sink nodes of a state, the edge of the outer graph at the connector with
  the name of their data. The newest entry is first. For a map with a subgraph the
  dictionary is only read where edges are rewired, and is not modelled.
\<close>

fun collect_outer ::
  "(string \<Rightarrow> error + edge) \<Rightarrow> SDFGState \<Rightarrow> nat list \<Rightarrow> (nat \<times> edge) list \<Rightarrow>
   error + (nat \<times> edge) list" where
  "collect_outer outer st [] acc = Inr acc"
| "collect_outer outer st (n # ns) acc =
     (case kind st n of
        AccessNode d \<Rightarrow> ebind (outer d) (\<lambda>outer_edge.
          collect_outer outer st ns ((n, outer_edge) # acc))
      | _ \<Rightarrow> collect_outer outer st ns acc)"

definition edge_to_outer ::
  "nat \<Rightarrow> SDFGState \<Rightarrow> nat \<Rightarrow> SDFGState \<Rightarrow> nat list \<Rightarrow> nat list \<Rightarrow> error + (nat \<times> edge) list"
  where
  "edge_to_outer expr_index g nsdfg_node st sources sinks =
     (if expr_index = 0 then Inr []
      else
        ebind (collect_outer
                 (\<lambda>d. next_edge (\<lambda>e. dst_conn e = Some d) (in_edges g nsdfg_node))
                 st sources [])
          (\<lambda>acc. collect_outer
                    (\<lambda>d. next_edge (\<lambda>e. src_conn e = Some d) (out_edges g nsdfg_node))
                    st sinks acc))"

text \<open>
  The loop \<open>for node in list(sources) + list(sinks)\<close> of the second expression, on
  the descriptors: the first time the data of an access node comes up, its descriptor
  takes the shape, the strides and the total size of the outer array.
\<close>

fun match_outer ::
  "(nat \<times> edge) list \<Rightarrow> (string \<rightharpoonup> int Array) \<Rightarrow> SDFGState \<Rightarrow> nat list \<Rightarrow> string list \<Rightarrow>
   (string \<rightharpoonup> int Array) \<Rightarrow> error + (string \<rightharpoonup> int Array)" where
  "match_outer eto outer_arrays st [] modified_arrays arrs = Inr arrs"
| "match_outer eto outer_arrays st (n # ns) modified_arrays arrs =
     (case kind st n of
        AccessNode d \<Rightarrow>
          ebind (lookup (map_of eto) n) (\<lambda>outer_edge.
          ebind (lookup arrs d) (\<lambda>desc.
            if d \<notin> set modified_arrays then
              ebind (case data (memlet outer_edge) of
                       None \<Rightarrow> Inl KeyError
                     | Some od \<Rightarrow> lookup outer_arrays od) (\<lambda>outer_desc.
                match_outer eto outer_arrays st ns (d # modified_arrays)
                  (arrs(d \<mapsto> desc\<lparr>shape := shape outer_desc,
                                     strides := strides outer_desc,
                                     total_size := total_size outer_desc\<rparr>)))
            else match_outer eto outer_arrays st ns modified_arrays arrs))
      | _ \<Rightarrow> match_outer eto outer_arrays st ns modified_arrays arrs)"

text \<open>
  The body of the loop \<open>for state, subgraph in subgraphs\<close>: the state and the
  registry of \<open>parent\<close> after it. The list \<open>new_map_entries\<close>, the first
  component of what \<open>add_maps\<close> returns, is not read again.
\<close>

definition fission_state ::
  "dace_api \<Rightarrow> nat \<Rightarrow> SDFGState \<Rightarrow> nat \<Rightarrow> map_scope \<Rightarrow> (string \<rightharpoonup> int Array) \<Rightarrow>
   SDFGState \<Rightarrow> subgraph \<Rightarrow> (string \<rightharpoonup> int Array) \<Rightarrow>
   error + (SDFGState \<times> (string \<rightharpoonup> int Array))" where
  "fission_state lib expr_index g nsdfg_node outer_map outer_arrays st sg parent_arrays =
     (let mapsize = range_size lib (map_range outer_map) in
      ebind (components lib sg) (\<lambda>cs.
        let sources = source_nodes sg;
            sinks = sink_nodes sg
        in
        ebind (edge_to_outer expr_index g nsdfg_node st sources sinks) (\<lambda>eto.
          let border = border_arrays cs sg sources sinks in
          ebind (add_scalars lib mapsize (scalars cs sg) (st, parent_arrays))
            (\<lambda>(st1, arrs1).
               let st2 = snd (add_maps outer_map cs ([], st1)) in
               ebind (augment_arrays mapsize border arrs1) (\<lambda>arrs2.
               ebind (if expr_index = 1
                      then match_outer eto outer_arrays st (sources @ sinks) [] arrs2
                      else Inr arrs2)
                 (\<lambda>arrs3. Inr (st2, arrs3)))))))"

fun fission_states ::
  "dace_api \<Rightarrow> nat \<Rightarrow> SDFGState \<Rightarrow> nat \<Rightarrow> map_scope \<Rightarrow> (string \<rightharpoonup> int Array) \<Rightarrow>
   SDFGState list \<Rightarrow> (string \<rightharpoonup> int Array) \<Rightarrow>
   error + (SDFGState list \<times> (string \<rightharpoonup> int Array))" where
  "fission_states lib expr_index g nsdfg_node outer_map outer_arrays [] arrs = Inr ([], arrs)"
| "fission_states lib expr_index g nsdfg_node outer_map outer_arrays (st # rest) arrs =
     ebind (fission_state lib expr_index g nsdfg_node outer_map outer_arrays st
              (state_view st) arrs)
       (\<lambda>(st', arrs1).
          ebind (fission_states lib expr_index g nsdfg_node outer_map outer_arrays rest arrs1)
            (\<lambda>(rest', arrs2). Inr (st' # rest', arrs2)))"

text \<open>
  The edges into a node, by their position among the edges of the state: an assignment
  to \<open>edge.data.subset\<close> changes the edge where it stands.
\<close>

definition in_edge_positions :: "SDFGState \<Rightarrow> nat \<Rightarrow> nat list" where
  "in_edge_positions g n = filter (\<lambda>i. dst (edges g ! i) = n) [0..<length (edges g)]"

definition out_edge_positions :: "SDFGState \<Rightarrow> nat \<Rightarrow> nat list" where
  "out_edge_positions g n = filter (\<lambda>i. src (edges g ! i) = n) [0..<length (edges g)]"

definition set_subset :: "range list \<Rightarrow> edge \<Rightarrow> edge" where
  "set_subset rs e = e\<lparr>memlet := (memlet e)\<lparr>subset := rs\<rparr>\<rparr>"

text \<open>
  The loop \<open>for edge in graph.in_edges(map_entry)\<close> of the second expression.
  An edge whose connector is \<open>None\<close>, empty or does not start with \<open>IN_\<close> is
  skipped. The matching edge inside the map is the first edge out of the entry node
  whose connector, after its first four characters, is the connector of the edge after
  its first three.
\<close>

fun reconnect_in ::
  "dace_api \<Rightarrow> (string \<rightharpoonup> int Array) \<Rightarrow> nat \<Rightarrow> nat \<Rightarrow> nat list \<Rightarrow> SDFGState \<Rightarrow>
   error + SDFGState" where
  "reconnect_in lib outer_arrays map_entry nsdfg_node [] g = Inr g"
| "reconnect_in lib outer_arrays map_entry nsdfg_node (i # rest) g =
     (let edge = edges g ! i in
      case dst_conn edge of
        None \<Rightarrow> reconnect_in lib outer_arrays map_entry nsdfg_node rest g
      | Some dc \<Rightarrow>
          if dc = [] \<or> take 3 dc \<noteq> ''IN_''
          then reconnect_in lib outer_arrays map_entry nsdfg_node rest g
          else
            ebind (case data (memlet edge) of
                     None \<Rightarrow> Inl KeyError
                   | Some name \<Rightarrow> lookup outer_arrays name) (\<lambda>desc.
              let edge' = set_subset (from_array lib desc) edge;
                  g1 = g\<lparr>edges := (edges g)[i := edge']\<rparr>
              in
              ebind (next_edge
                       (\<lambda>e. case src_conn e of
                               None \<Rightarrow> False
                             | Some sc \<Rightarrow> sc \<noteq> [] \<and> drop 4 sc = drop 3 dc)
                       (out_edges g1 map_entry)) (\<lambda>inner_edge.
                reconnect_in lib outer_arrays map_entry nsdfg_node rest
                  (g1\<lparr>edges := edges g1 @
                        [\<lparr>src = src edge', src_conn = src_conn edge', dst = nsdfg_node,
                          dst_conn = dst_conn inner_edge, memlet = memlet edge'\<rparr>]\<rparr>))))"

text \<open>
  \<open>next(e for e in graph.in_edges(map_exit) if e.dst_conn[3:] == edge.src_conn[4:])\<close>:
  slicing a connector that is \<open>None\<close> raises.
\<close>

fun next_inner_out :: "edge \<Rightarrow> edge list \<Rightarrow> error + edge" where
  "next_inner_out edge [] = Inl StopIteration"
| "next_inner_out edge (e # es) =
     (case dst_conn e of
        None \<Rightarrow> Inl TypeError
      | Some dc \<Rightarrow>
          (case src_conn edge of
             None \<Rightarrow> Inl TypeError
           | Some sc \<Rightarrow> if drop 3 dc = drop 4 sc then Inr e else next_inner_out edge es))"

text \<open>The loop \<open>for edge in graph.out_edges(map_exit)\<close> of the second expression.\<close>

fun reconnect_out ::
  "dace_api \<Rightarrow> (string \<rightharpoonup> int Array) \<Rightarrow> nat \<Rightarrow> nat \<Rightarrow> nat list \<Rightarrow> SDFGState \<Rightarrow>
   error + SDFGState" where
  "reconnect_out lib outer_arrays map_exit nsdfg_node [] g = Inr g"
| "reconnect_out lib outer_arrays map_exit nsdfg_node (i # rest) g =
     (let edge = edges g ! i in
      ebind (case data (memlet edge) of
               None \<Rightarrow> Inl KeyError
             | Some name \<Rightarrow> lookup outer_arrays name) (\<lambda>desc.
        let edge' = set_subset (from_array lib desc) edge;
            g1 = g\<lparr>edges := (edges g)[i := edge']\<rparr>
        in
        ebind (next_inner_out edge' (in_edges g1 map_exit)) (\<lambda>inner_edge.
          reconnect_out lib outer_arrays map_exit nsdfg_node rest
            (g1\<lparr>edges := edges g1 @
                  [\<lparr>src = nsdfg_node, src_conn = src_conn inner_edge, dst = dst edge',
                    dst_conn = dst_conn edge', memlet = memlet edge'\<rparr>]\<rparr>))))"

definition reconnect ::
  "dace_api \<Rightarrow> (string \<rightharpoonup> int Array) \<Rightarrow> nat \<Rightarrow> nat \<Rightarrow> nat \<Rightarrow> SDFGState \<Rightarrow> error + SDFGState"
  where
  "reconnect lib outer_arrays map_entry map_exit nsdfg_node g =
     ebind (reconnect_in lib outer_arrays map_entry nsdfg_node (in_edge_positions g map_entry) g)
       (\<lambda>g1. reconnect_out lib outer_arrays map_exit nsdfg_node
                (out_edge_positions g1 map_exit) g1)"

text \<open>\<open>graph.remove_nodes_from(ns)\<close>: the nodes go, and the edges at them.\<close>

definition remove_nodes_from :: "nat list \<Rightarrow> SDFGState \<Rightarrow> SDFGState" where
  "remove_nodes_from ns g =
     g\<lparr>nodes := filter (\<lambda>n. n \<notin> set ns) (nodes g),
       edges := filter (\<lambda>e. src e \<notin> set ns \<and> dst e \<notin> set ns) (edges g)\<rparr>"

text \<open>
  \<open>MapFission.apply\<close>, on the SDFG of the transformation and the SDFG of the nested
  SDFG node. \<open>state_id\<close>, the entry node, the nested SDFG node and the expression
  are the attributes of the transformation object.
\<close>

definition MapFission_apply ::
  "dace_api \<Rightarrow> nat \<Rightarrow> nat \<Rightarrow> nat \<Rightarrow> nat \<Rightarrow> int SDFG \<times> int SDFG \<Rightarrow>
   error + (int SDFG \<times> int SDFG)" where
  "MapFission_apply lib state_id map_entry nsdfg_node expr_index w =
     (case w of (sdfg, nsdfg) \<Rightarrow>
      ebind (py_index (states sdfg) (int state_id)) (\<lambda>g.
      ebind (py_index (exit_nodes lib g map_entry) 0) (\<lambda>map_exit.
      ebind (case kind g map_entry of
               EntryNode m \<Rightarrow> Inr (maps g m)
             | _ \<Rightarrow> Inl AttributeError) (\<lambda>outer_map.
        if expr_index = 0 then
          ebind (fission_state lib expr_index g nsdfg_node outer_map (arrays sdfg) g
                   (scope_view lib g map_entry) (arrays sdfg))
            (\<lambda>(g1, arrs).
               Inr (sdfg\<lparr>arrays := arrs,
                         states := (states sdfg)
                           [state_id := remove_nodes_from [map_entry, map_exit] g1]\<rparr>,
                    nsdfg))
        else
          ebind (fission_states lib expr_index g nsdfg_node outer_map (arrays sdfg)
                   (states nsdfg) (arrays nsdfg))
            (\<lambda>(sts, arrs).
               ebind (if expr_index = 1
                      then reconnect lib (arrays sdfg) map_entry map_exit nsdfg_node g
                      else Inr g)
                 (\<lambda>g1.
                    Inr (sdfg\<lparr>states := (states sdfg)
                               [state_id := remove_nodes_from [map_entry, map_exit] g1]\<rparr>,
                         nsdfg\<lparr>arrays := arrs, states := sts\<rparr>)))))))"










section \<open>Example graphs for map fission\<close>

text \<open>
  Modelled from the spec: the library functions of \<open>dace_api\<close>, which are not among
  the files at hand, for the examples only. The scopes are given as the function
  \<open>scope\<close> from a node to the entry node that encloses it directly ("all nodes
  topologically between them are inside the scope"; the exit node is inside). A map has
  dynamic inputs when an edge with a memlet enters it at a connector that does not
  start with \<open>IN_\<close>; the size of a range \<open>(start, end, step)\<close> includes its end; the
  range of an array is \<open>(0, s - 1, 1)\<close> for every size \<open>s\<close> of its shape; a new
  transient is named \<open>__tmp\<close> followed by a stroke for every name of that form that
  is taken.
\<close>

fun in_scope :: "(nat \<Rightarrow> nat option) \<Rightarrow> nat \<Rightarrow> nat \<Rightarrow> nat \<Rightarrow> bool" where
  "in_scope scope 0 entry n = False"
| "in_scope scope (Suc fuel) entry n =
     (case scope n of None \<Rightarrow> False | Some p \<Rightarrow> p = entry \<or> in_scope scope fuel entry p)"

fun temp_name :: "(string \<rightharpoonup> int Array) \<Rightarrow> nat \<Rightarrow> string \<Rightarrow> string" where
  "temp_name arrs 0 name = name"
| "temp_name arrs (Suc fuel) name =
     (if arrs name = None then name else temp_name arrs fuel (name @ ''_''))"

definition ex_exit_nodes :: "(nat \<Rightarrow> nat option) \<Rightarrow> SDFGState \<Rightarrow> nat \<Rightarrow> nat list" where
  "ex_exit_nodes scope g n =
     filter (\<lambda>v. scope v = Some n \<and> (case kind g v of ExitNode m \<Rightarrow> True | _ \<Rightarrow> False))
       (nodes g)"

definition ex_api :: "(nat \<Rightarrow> nat option) \<Rightarrow> dace_api" where
  "ex_api scope =
     \<lparr>has_dynamic_map_inputs =
        (\<lambda>g n. list_ex (\<lambda>e. data (memlet e) \<noteq> None
                             \<and> (case dst_conn e of None \<Rightarrow> True
                                 | Some c \<Rightarrow> take 3 c \<noteq> ''IN_''))
                  (in_edges g n)),
      scope_subgraph =
        (\<lambda>g n. filter (\<lambda>v. in_scope scope (length (nodes g)) n v
                            \<and> v \<notin> set (ex_exit_nodes scope g n))
                  (nodes g)),
      scope_children =
        (\<lambda>sg. filter (\<lambda>v. case scope v of None \<Rightarrow> True
                                | Some p \<Rightarrow> p \<notin> set (sg_nodes sg))
                 (sg_nodes sg)),
      exit_nodes = ex_exit_nodes scope,
      range_size = map (\<lambda>(b, e, s). (e - b + 1) div s),
      from_array = (\<lambda>desc. full_range (shape desc)),
      add_temp_transient =
        (\<lambda>arrs shp desc.
           (temp_name arrs 8 ''__tmp'',
            \<lparr>shape = shp, strides = map (\<lambda>_. 1) shp, total_size = prod_list shp,
             offset = map (\<lambda>_. 0) shp, transient = True, storage = storage desc,
             dtype = dtype desc\<rparr>))\<rparr>"

definition ex_map :: map_scope where
  "ex_map = \<lparr>label = ''m'', params = [''i''], map_range = [(0, 7, 1)],
             schedule = ''Default'', unroll = False\<rparr>"

definition ex_memlet :: "string \<Rightarrow> range list \<Rightarrow> memlet" where
  "ex_memlet name rs = \<lparr>data = Some name, subset = rs\<rparr>"

definition ex_edge :: "nat \<Rightarrow> string option \<Rightarrow> nat \<Rightarrow> string option \<Rightarrow> memlet \<Rightarrow> edge" where
  "ex_edge u uc v vc m = \<lparr>src = u, src_conn = uc, dst = v, dst_conn = vc, memlet = m\<rparr>"

text \<open>
  A map (entry node 1, exit node 5) over \<open>i = 0..7\<close> around two tasklets (nodes 2
  and 4) that pass a value through the transient \<open>tmp\<close> (node 3); the first tasklet
  reads \<open>A\<close> (node 0) and the second writes \<open>B\<close> (node 6).
\<close>

definition ex_scope :: "nat \<Rightarrow> nat option" where
  "ex_scope n = (if n \<in> {2, 3, 4, 5} then Some 1 else None)"

definition ex_fission_state :: SDFGState where
  "ex_fission_state =
     \<lparr>nodes = [0, 1, 2, 3, 4, 5, 6],
      kind = (\<lambda>n. if n = 0 then AccessNode ''A'' else if n = 1 then EntryNode 0
                   else if n = 2 then CodeNode else if n = 3 then AccessNode ''tmp''
                   else if n = 4 then CodeNode else if n = 5 then ExitNode 0
                   else AccessNode ''B''),
      maps = (\<lambda>m. ex_map),
      edges =
        [ex_edge 0 None 1 (Some ''IN_A'') (ex_memlet ''A'' [(0, 7, 1)]),
         ex_edge 1 (Some ''OUT_A'') 2 (Some ''a'') (ex_memlet ''A'' [(0, 0, 1)]),
         ex_edge 2 (Some ''t'') 3 None (ex_memlet ''tmp'' [(0, 0, 1)]),
         ex_edge 3 None 4 (Some ''t'') (ex_memlet ''tmp'' [(0, 0, 1)]),
         ex_edge 4 (Some ''b'') 5 (Some ''IN_B'') (ex_memlet ''B'' [(0, 0, 1)]),
         ex_edge 5 (Some ''OUT_B'') 6 None (ex_memlet ''B'' [(0, 7, 1)])]\<rparr>"

definition ex_fission_sdfg :: "int SDFG" where
  "ex_fission_sdfg =
     \<lparr>arrays = [''A'' \<mapsto> ex_array [8] [1], ''B'' \<mapsto> ex_array [8] [1],
                ''tmp'' \<mapsto> (ex_array [1] [1])\<lparr>transient := True\<rparr>],
      states = [ex_fission_state]\<rparr>"

text \<open>A map whose scope is empty: the entry node 0 and the exit node 1, and one edge
  with an empty memlet from the one to the other.\<close>

definition ex_empty_scope :: "nat \<Rightarrow> nat option" where
  "ex_empty_scope n = (if n = 1 then Some 0 else None)"

definition ex_empty_map_state :: SDFGState where
  "ex_empty_map_state =
     \<lparr>nodes = [0, 1],
      kind = (\<lambda>n. if n = 0 then EntryNode 0 else ExitNode 0),
      maps = (\<lambda>m. ex_map),
      edges = [ex_edge 0 None 1 None \<lparr>data = None, subset = []\<rparr>]\<rparr>"

definition ex_empty_map_sdfg :: "int SDFG" where
  "ex_empty_map_sdfg = \<lparr>arrays = Map.empty, states = [ex_empty_map_state]\<rparr>"

text \<open>
  A map (entry node 1, exit node 3) around a nested SDFG (node 2) that reads \<open>A\<close>
  (node 0) at its connector \<open>a\<close> and writes \<open>B\<close> (node 4) at its connector \<open>b\<close>.
  The nested SDFG has the arrays \<open>a\<close> and \<open>b\<close> and the transient \<open>tmp\<close>, and
  states in which a tasklet computes \<open>tmp\<close> from \<open>a\<close> and a second tasklet
  \<open>b\<close> from \<open>tmp\<close>; the nodes of such a state are numbered from \<open>k\<close>.
\<close>

definition ex_nested_scope :: "nat \<Rightarrow> nat option" where
  "ex_nested_scope n = (if n \<in> {2, 3} then Some 1 else None)"

definition ex_outer_state :: SDFGState where
  "ex_outer_state =
     \<lparr>nodes = [0, 1, 2, 3, 4],
      kind = (\<lambda>n. if n = 0 then AccessNode ''A'' else if n = 1 then EntryNode 0
                   else if n = 2 then CodeNode else if n = 3 then ExitNode 0
                   else AccessNode ''B''),
      maps = (\<lambda>m. ex_map),
      edges =
        [ex_edge 0 None 1 (Some ''IN_A'') (ex_memlet ''A'' [(0, 7, 1)]),
         ex_edge 1 (Some ''OUT_A'') 2 (Some ''a'') (ex_memlet ''A'' [(0, 0, 1)]),
         ex_edge 2 (Some ''b'') 3 (Some ''IN_B'') (ex_memlet ''B'' [(0, 0, 1)]),
         ex_edge 3 (Some ''OUT_B'') 4 None (ex_memlet ''B'' [(0, 7, 1)])]\<rparr>"

definition ex_outer_sdfg :: "int SDFG" where
  "ex_outer_sdfg =
     \<lparr>arrays = [''A'' \<mapsto> ex_array [8] [1], ''B'' \<mapsto> ex_array [8] [1]],
      states = [ex_outer_state]\<rparr>"

definition ex_inner_state :: "nat \<Rightarrow> SDFGState" where
  "ex_inner_state k =
     \<lparr>nodes = [k, k + 1, k + 2, k + 3, k + 4],
      kind = (\<lambda>n. if n = k then AccessNode ''a'' else if n = k + 1 then CodeNode
                   else if n = k + 2 then AccessNode ''tmp''
                   else if n = k + 3 then CodeNode else AccessNode ''b''),
      maps = (\<lambda>m. ex_map),
      edges =
        [ex_edge k None (k + 1) (Some ''x'') (ex_memlet ''a'' [(0, 0, 1)]),
         ex_edge (k + 1) (Some ''t'') (k + 2) None (ex_memlet ''tmp'' [(0, 0, 1)]),
         ex_edge (k + 2) None (k + 3) (Some ''t'') (ex_memlet ''tmp'' [(0, 0, 1)]),
         ex_edge (k + 3) (Some ''y'') (k + 4) None (ex_memlet ''b'' [(0, 0, 1)])]\<rparr>"

definition ex_inner_arrays :: "string \<rightharpoonup> int Array" where
  "ex_inner_arrays =
     [''a'' \<mapsto> ex_array [1] [1], ''b'' \<mapsto> ex_array [1] [1],
      ''tmp'' \<mapsto> (ex_array [1] [1])\<lparr>transient := True\<rparr>]"

definition ex_nested_one :: "int SDFG" where
  "ex_nested_one = \<lparr>arrays = ex_inner_arrays, states = [ex_inner_state 10]\<rparr>"

definition ex_nested_two :: "int SDFG" where
  "ex_nested_two =
     \<lparr>arrays = ex_inner_arrays, states = [ex_inner_state 10, ex_inner_state 20]\<rparr>"

text \<open>The SDFG of the first example with \<open>tmp\<close> registered as not transient.\<close>

definition ex_fission_sdfg_visible :: "int SDFG" where
  "ex_fission_sdfg_visible =
     ex_fission_sdfg\<lparr>arrays := (arrays ex_fission_sdfg)(''tmp'' \<mapsto> ex_array [1] [1])\<rparr>"

section \<open>Properties of the helpers\<close>

lemma ebind_Inl [simp]: "ebind (Inl e) f = Inl e"
  by (simp add: ebind_def)

lemma ebind_Inr [simp]: "ebind (Inr x) f = f x"
  by (simp add: ebind_def)

lemma ebind_Inr_iff: "ebind m f = Inr y \<longleftrightarrow> (\<exists>x. m = Inr x \<and> f x = Inr y)"
  by (cases m) simp_all

lemma read_local_Inr_iff: "read_local v = Inr x \<longleftrightarrow> v = Some x"
  by (cases v) (simp_all add: read_local_def)

lemma lookup_Inr_iff: "lookup d k = Inr v \<longleftrightarrow> d k = Some v"
  by (cases "d k") (simp_all add: lookup_def)

lemma lookup_Some: "d k = Some v \<Longrightarrow> lookup d k = Inr v"
  by (simp add: lookup_Inr_iff)

lemma lookup_None: "d k = None \<Longrightarrow> lookup d k = Inl KeyError"
  by (simp add: lookup_def)

lemma py_index_0: "py_index xs 0 = (if xs = [] then Inl IndexError else Inr (hd xs))"
  by (cases xs) (simp_all add: py_index_def)

lemma py_index_last: "py_index xs (- 1) = Inr x \<longleftrightarrow> xs \<noteq> [] \<and> x = last xs"
  by (cases xs rule: rev_cases) (auto simp: py_index_def nth_append)

lemma py_index_last2:
  "py_index xs (- 2) = Inr x \<longleftrightarrow> 2 \<le> length xs \<and> x = xs ! (length xs - 2)"
  by (auto simp: py_index_def nat_diff_distrib' intro: arg_cong[where f="(!) xs"])

lemma length2_cases: "length xs = 2 \<longleftrightarrow> (\<exists>x y. xs = [x, y])"
  by (cases xs; cases "tl xs") auto

section \<open>Batch detection\<close>

lemma msgs_distinct: "msg_too_large \<noteq> msg_batch_mismatch"
  by (simp add: msg_too_large_def msg_batch_mismatch_def)

lemma first_batch_cases:
  "first_batch a =
     (if length (shape a) = 3 then
        (if strides a = [] then Inl IndexError
         else Inr (Some (hd (shape a)), hd (strides a)))
      else Inr (None, 0))"
  by (auto simp: first_batch_def py_index_0)

lemma next_batch_cases:
  "next_batch batch x =
     (if length (shape x) = 3 then
        (if truthy batch \<and> batch \<noteq> Some (hd (shape x))
         then Inl (ValueError msg_batch_mismatch)
         else if strides x = [] then Inl IndexError
         else Inr (Some (hd (shape x)), hd (strides x)))
      else Inr (batch, 0))"
  by (auto simp: next_batch_def py_index_0)

text \<open>A descriptor of rank above three is refused, whichever of the three it is.\<close>

lemma get_batchmm_opts_too_large:
  assumes "3 < length (shape a) \<or> 3 < length (shape b)
           \<or> (\<exists>c'. c = Some c' \<and> 3 < length (shape c'))"
  shows "get_batchmm_opts a b c = Inl (ValueError msg_too_large)"
  using assms by (auto simp: get_batchmm_opts_def split: option.splits)

text \<open>
  With an input of rank three, descriptors whose strides are as long as their shape, and
  no error, the result has the four parameters, and its batch count is the leading
  dimension of the last descriptor of rank three among \<open>a\<close>, \<open>b\<close>, \<open>c\<close>.
\<close>

lemma get_batchmm_opts_batched:
  assumes "length (shape a) = 3 \<or> length (shape b) = 3"
    and "get_batchmm_opts a b c = Inr r"
  shows "\<exists>opts. r = Some opts \<and>
           opt_b opts =
             (case c of
                Some c' \<Rightarrow>
                  if length (shape c') = 3 then hd (shape c')
                  else if length (shape b) = 3 then hd (shape b) else hd (shape a)
              | None \<Rightarrow> if length (shape b) = 3 then hd (shape b) else hd (shape a))"
  using assms
  by (auto simp: get_batchmm_opts_def first_batch_cases next_batch_cases
           split: if_splits option.splits)

text \<open>
  Where no leading dimension is zero, the descriptors of rank three agree on the batch
  count that is returned.
\<close>

lemma get_batchmm_opts_agree:
  assumes "get_batchmm_opts a b c = Inr (Some opts)"
    and "x = a \<or> x = b \<or> c = Some x" and "length (shape x) = 3"
    and "\<forall>y. (y = a \<or> y = b \<or> c = Some y) \<and> length (shape y) = 3 \<longrightarrow> hd (shape y) \<noteq> 0"
  shows "hd (shape x) = opt_b opts"
proof -
  have a: "length (shape a) = 3 \<Longrightarrow> hd (shape a) \<noteq> 0"
    and b: "length (shape b) = 3 \<Longrightarrow> hd (shape b) \<noteq> 0"
    using assms(4) by blast+
  have c: "\<And>c'. c = Some c' \<Longrightarrow> length (shape c') = 3 \<Longrightarrow> hd (shape c') \<noteq> 0"
    using assms(4) by blast
  show ?thesis
    using assms(1-3) a b c
    by (auto simp: get_batchmm_opts_def first_batch_cases next_batch_cases truthy_def
             split: if_splits option.splits)
qed

text \<open>
  Claim C1. The routine returns the empty dictionary for inputs of rank at most two,
  the batch parameters with one agreed batch count when an input has rank three, and
  raises when two descriptors of rank three disagree on the leading dimension. The last
  part fails on the code: the guard \<open>if batch and batch != ...\<close> takes a batch count of
  \<open>0\<close> for "no batch found yet", so \<open>a\<close> of shape \<open>[0, 2, 2]\<close> and \<open>b\<close> of shape
  \<open>[5, 2, 2]\<close> disagree and are accepted, with batch count \<open>5\<close>.
\<close>

theorem get_batchmm_opts_zero_batch_accepted:
  "get_batchmm_opts (ex_array [0, 2, 2] [4, 2, 1]) (ex_array [5, 2, 2] [4, 2, 1]) None =
     Inr (Some \<lparr>opt_sa = 4, opt_sb = 4, opt_sc = 0, opt_b = 5\<rparr>)"
  by (simp add: get_batchmm_opts_def first_batch_cases next_batch_cases ex_array_def truthy_def)

text \<open>
  Claim C10. For inputs \<open>a\<close> and \<open>b\<close> of rank at most two the routine returns the
  empty dictionary whatever the leading dimension of \<open>c\<close> is, and the batch size of
  \<open>c\<close> is compared only when an input has rank three. As stated, for every \<open>c\<close>, the
  claim fails: the rank of \<open>c\<close> is still checked, and an output of rank four raises.
\<close>

theorem get_batchmm_opts_rank4_output_raises:
  "length (shape (ex_array [3, 4] [4, 1])) \<le> 2 \<and> length (shape (ex_array [4, 5] [5, 1])) \<le> 2
   \<and> get_batchmm_opts (ex_array [3, 4] [4, 1]) (ex_array [4, 5] [5, 1])
        (Some (ex_array [1, 2, 3, 5] [30, 15, 5, 1])) = Inl (ValueError msg_too_large)"
  by (simp add: get_batchmm_opts_def ex_array_def)

text \<open>
  Claim C10, amended: for inputs of rank at most two and an output that is absent or of
  rank at most three, the result is the empty dictionary (so neither parameters nor an
  error, whatever the shape of the output); and whenever the routine raises the batch
  mismatch, an input has rank three.
\<close>

theorem get_batchmm_opts_rank2_inputs:
  "(length (shape a) \<le> 2 \<and> length (shape b) \<le> 2
      \<and> (case c of None \<Rightarrow> True | Some c' \<Rightarrow> length (shape c') \<le> 3)
    \<longrightarrow> get_batchmm_opts a b c = Inr None)
   \<and> (get_batchmm_opts a b c = Inl (ValueError msg_batch_mismatch)
    \<longrightarrow> length (shape a) = 3 \<or> length (shape b) = 3)"
  using msgs_distinct
  by (auto simp: get_batchmm_opts_def split: option.splits if_splits)

theorem get_batchmm_opts_rank2_inputs_witness:
  "get_batchmm_opts (ex_array [3, 4] [4, 1]) (ex_array [4, 5] [5, 1])
     (Some (ex_array [7, 3, 5] [15, 5, 1])) = Inr None
   \<and> get_batchmm_opts (ex_array [2, 3, 4] [12, 4, 1]) (ex_array [4, 5] [5, 1])
       (Some (ex_array [7, 3, 5] [15, 5, 1])) = Inl (ValueError msg_batch_mismatch)
   \<and> length (shape (ex_array [2, 3, 4] [12, 4, 1])) = 3"
proof -
  have "get_batchmm_opts (ex_array [2, 3, 4] [12, 4, 1]) (ex_array [4, 5] [5, 1])
       (Some (ex_array [7, 3, 5] [15, 5, 1])) = Inl (ValueError msg_batch_mismatch)"
    by (simp add: get_batchmm_opts_def first_batch_cases next_batch_cases ex_array_def
          truthy_def)
  then show ?thesis
    using get_batchmm_opts_rank2_inputs
            [of "ex_array [3, 4] [4, 1]" "ex_array [4, 5] [5, 1]"
                "Some (ex_array [7, 3, 5] [15, 5, 1])"]
          get_batchmm_opts_rank2_inputs
            [of "ex_array [2, 3, 4] [12, 4, 1]" "ex_array [4, 5] [5, 1]"
                "Some (ex_array [7, 3, 5] [15, 5, 1])"]
    by (simp add: ex_array_def)
qed

section \<open>Validation of the matrix multiplication node\<close>

lemma size_at_pair:
  "size_at sq conn [e1, e2] =
     (if dst_conn e2 = Some conn then Some (sq (subset (memlet e2)))
      else if dst_conn e1 = Some conn then Some (sq (subset (memlet e1))) else None)"
  by (simp add: size_at_def)

lemma ex_matmul_in_edges:
  "in_edges (ex_matmul_state sa sb sc) 2 =
     [\<lparr>src = 0, src_conn = None, dst = 2, dst_conn = Some ''_a'',
       memlet = \<lparr>data = Some ''A'', subset = full_range sa\<rparr>\<rparr>,
      \<lparr>src = 1, src_conn = None, dst = 2, dst_conn = Some ''_b'',
       memlet = \<lparr>data = Some ''B'', subset = full_range sb\<rparr>\<rparr>]"
  by (simp add: in_edges_def ex_matmul_state_def)

lemma ex_matmul_out_edges:
  "out_edges (ex_matmul_state sa sb sc) 2 =
     [\<lparr>src = 2, src_conn = Some ''_c'', dst = 3, dst_conn = None,
       memlet = \<lparr>data = Some ''C'', subset = full_range sc\<rparr>\<rparr>]"
  by (simp add: out_edges_def ex_matmul_state_def)

lemma ex_batched_validates:
  "MatMul_validate ex_squeezed_size ex_batched_sdfg ex_batched_state 2 = Inr ()"
  by (simp add: MatMul_validate_def ex_batched_state_def ex_batched_sdfg_def
        ex_matmul_in_edges ex_matmul_out_edges Let_def size_at_def array_of_def lookup_def
        ex_matmul_sdfg_def ex_array_def get_batchmm_opts_def first_batch_def next_batch_def
        py_index_def truthy_def read_local_def ex_squeezed_size_def full_range_def)

lemma ex_plain_validates:
  "MatMul_validate ex_squeezed_size ex_plain_sdfg ex_plain_state 2 = Inr ()"
  by (simp add: MatMul_validate_def ex_plain_state_def ex_plain_sdfg_def
        ex_matmul_in_edges ex_matmul_out_edges Let_def size_at_def array_of_def lookup_def
        ex_matmul_sdfg_def ex_array_def get_batchmm_opts_def
        py_index_def read_local_def ex_squeezed_size_def full_range_def)

text \<open>
  What a normal return of \<open>validate\<close> gives: two input edges, one into \<open>_a\<close> and
  one into \<open>_b\<close>, and one output edge; squeezed input subsets of rank two when batch
  detection (on the arrays of the input edges in their order, and of the output edge)
  returns no parameters; the last size of \<open>_a\<close> equal to the last but one of \<open>_b\<close>;
  and squeezed output sizes \<open>[m, n]\<close>, or \<open>[b, m, n]\<close> with the \<open>b\<close> of the
  parameters. Whether the batch sizes are consistent is left to \<open>get_batchmm_opts\<close>.
\<close>

lemma MatMul_validate_returns_only_when:
  assumes ok: "MatMul_validate squeezed_size sdfg state self = Inr ()"
  shows "\<exists>ea eb ec a b c bopt.
           (in_edges state self = [ea, eb] \<or> in_edges state self = [eb, ea])
         \<and> dst_conn ea = Some ''_a'' \<and> dst_conn eb = Some ''_b''
         \<and> out_edges state self = [ec]
         \<and> array_of sdfg (in_edges state self ! 0) = Inr a
         \<and> array_of sdfg (in_edges state self ! 1) = Inr b
         \<and> array_of sdfg ec = Inr c
         \<and> get_batchmm_opts a b (Some c) = Inr bopt
         \<and> (let size0 = squeezed_size (subset (memlet ea));
                 size1 = squeezed_size (subset (memlet eb));
                 size2 = squeezed_size (subset (memlet ec));
                 m = size0 ! (length size0 - 2);
                 n = last size1
             in (bopt = None \<longrightarrow> length size0 = 2 \<and> length size1 = 2)
              \<and> 2 \<le> length size0 \<and> 2 \<le> length size1
              \<and> last size0 = size1 ! (length size1 - 2)
              \<and> (case bopt of None \<Rightarrow> size2 = [m, n]
                  | Some opts \<Rightarrow> size2 = [opt_b opts, m, n]))"
proof -
  from ok obtain e1 e2 where ins: "in_edges state self = [e1, e2]"
    by (auto simp: MatMul_validate_def Let_def length2_cases split: if_splits)
  from ok obtain ec where outs: "out_edges state self = [ec]"
    by (auto simp: MatMul_validate_def Let_def length_Suc_conv split: if_splits)
  from ok ins outs obtain a b c bopt s0 s1 where
    a: "array_of sdfg e1 = Inr a" and b: "array_of sdfg e2 = Inr b"
    and c: "array_of sdfg ec = Inr c"
    and bopt: "get_batchmm_opts a b (Some c) = Inr bopt"
    and s0: "size_at squeezed_size ''_a'' [e1, e2] = Some s0"
    and s1: "size_at squeezed_size ''_b'' [e1, e2] = Some s1"
    and ranks: "bopt = None \<longrightarrow> length s0 = 2 \<and> length s1 = 2"
    and k: "s0 \<noteq> [] \<and> 2 \<le> length s1 \<and> last s0 = s1 ! (length s1 - 2)"
    and out: "case bopt of
        None \<Rightarrow> 2 \<le> length s0
          \<and> squeezed_size (subset (memlet ec)) = [s0 ! (length s0 - 2), last s1]
      | Some opts \<Rightarrow> 2 \<le> length s0
          \<and> squeezed_size (subset (memlet ec)) = [opt_b opts, s0 ! (length s0 - 2), last s1]"
    unfolding MatMul_validate_def Let_def
    by (auto simp: ebind_Inr_iff read_local_Inr_iff py_index_last py_index_last2
             split: if_splits option.splits)
  have len0: "2 \<le> length s0" using out by (cases bopt) auto
  from s0 s1 consider
      (ab) "dst_conn e1 = Some ''_a''" "dst_conn e2 = Some ''_b''"
           "s0 = squeezed_size (subset (memlet e1))" "s1 = squeezed_size (subset (memlet e2))"
    | (ba) "dst_conn e2 = Some ''_a''" "dst_conn e1 = Some ''_b''"
           "s0 = squeezed_size (subset (memlet e2))" "s1 = squeezed_size (subset (memlet e1))"
    by (auto simp: size_at_pair split: if_splits)
  then show ?thesis
  proof cases
    case ab
    show ?thesis
      apply (rule exI[where x=e1], rule exI[where x=e2], rule exI[where x=ec])
      apply (rule exI[where x=a], rule exI[where x=b], rule exI[where x=c])
      apply (rule exI[where x=bopt])
      using ins outs a b c bopt ranks k out len0 ab
      by (auto simp: Let_def split: option.splits)
  next
    case ba
    show ?thesis
      apply (rule exI[where x=e2], rule exI[where x=e1], rule exI[where x=ec])
      apply (rule exI[where x=a], rule exI[where x=b], rule exI[where x=c])
      apply (rule exI[where x=bopt])
      using ins outs a b c bopt ranks k out len0 ba
      by (auto simp: Let_def split: option.splits)
  qed
qed

text \<open>Two input edges that both enter \<open>_a\<close> raise no \<open>ValueError\<close>: the local \<open>size1\<close> is unbound.\<close>

lemma MatMul_validate_two_a_edges:
  "MatMul_validate ex_squeezed_size ex_plain_sdfg ex_two_a_state 2 = Inl UnboundLocalError"
  by (simp add: MatMul_validate_def ex_two_a_state_def ex_plain_state_def ex_plain_sdfg_def
        ex_matmul_state_def in_edges_def out_edges_def Let_def size_at_def array_of_def
        lookup_def ex_matmul_sdfg_def ex_array_def get_batchmm_opts_def
        py_index_def read_local_def ex_squeezed_size_def full_range_def)

text \<open>
  Claim C2. Validation succeeds only when the node has two input edges, into \<open>_a\<close>
  and \<open>_b\<close>, and one output edge; when each squeezed input subset has rank two
  unless a consistent batch dimension is detected; when the contracted sizes agree; and
  when the squeezed output is \<open>[m, n]\<close> or \<open>[batch, m, n]\<close>. The code accepts
  inputs of rank three whose batch sizes differ: for \<open>A[0,2,2]\<close> and \<open>B[5,2,2]\<close>
  into \<open>C[5,2,2]\<close>, batch detection treats the batch size 0 of \<open>A\<close> as no batch
  size, reports the batch size 5, and \<open>validate\<close> returns normally.
\<close>

theorem MatMul_validate_accepts_inconsistent_batch:
  "MatMul_validate ex_squeezed_size ex_zero_batch_sdfg ex_zero_batch_state 2 = Inr ()
   \<and> map (\<lambda>e. ex_squeezed_size (subset (memlet e))) (in_edges ex_zero_batch_state 2)
       = [[0, 2, 2], [5, 2, 2]]
   \<and> map (\<lambda>e. map_sum id shape (array_of ex_zero_batch_sdfg e))
         (in_edges ex_zero_batch_state 2)
       = [Inr [0, 2, 2], Inr [5, 2, 2]]"
  by (simp add: MatMul_validate_def ex_zero_batch_state_def ex_zero_batch_sdfg_def
        ex_matmul_in_edges ex_matmul_out_edges Let_def size_at_def array_of_def lookup_def
        ex_matmul_sdfg_def ex_array_def get_batchmm_opts_def first_batch_def next_batch_def
        py_index_def truthy_def read_local_def ex_squeezed_size_def full_range_def)

section \<open>The portable expansion\<close>

lemma get_matmul_inputs_pair:
  assumes "in_edges state n = [ea, eb] \<or> in_edges state n = [eb, ea]"
    and "dst_conn ea = Some ''_a''" "dst_conn eb = Some ''_b''"
    and "arrays sdfg (fnd ea) = Some oa" "arrays sdfg (fnd eb) = Some ob"
    and "2 \<le> length (sq (subset (memlet ea)))" "2 \<le> length (sq (subset (memlet eb)))"
  shows "get_matmul_inputs sq fnd sdfg state n =
           Inr ((ea, oa, (sq (subset (memlet ea)) ! (length (sq (subset (memlet ea))) - 2),
                          last (sq (subset (memlet ea))))),
                (eb, ob, (sq (subset (memlet eb)) ! (length (sq (subset (memlet eb))) - 2),
                          last (sq (subset (memlet eb))))))"
proof -
  have ia: "py_index (sq (subset (memlet ea))) (- 2) =
              Inr (sq (subset (memlet ea)) ! (length (sq (subset (memlet ea))) - 2))"
    and la: "py_index (sq (subset (memlet ea))) (- 1) = Inr (last (sq (subset (memlet ea))))"
    and ib: "py_index (sq (subset (memlet eb))) (- 2) =
              Inr (sq (subset (memlet eb)) ! (length (sq (subset (memlet eb))) - 2))"
    and lb: "py_index (sq (subset (memlet eb))) (- 1) = Inr (last (sq (subset (memlet eb))))"
    using assms(6,7) by (auto simp: py_index_last py_index_last2)
  show ?thesis
    using assms(1-5) ia la ib lb
    by (auto simp: get_matmul_inputs_def lookup_Some Let_def)
qed

text \<open>
  The parts of claim C6 that hold: from a result of \<open>_get_matmul_inputs\<close> with shapes
  \<open>(m, k)\<close> and \<open>(k, n)\<close> and one storage class, \<open>make_sdfg\<close> adds \<open>_c\<close> with
  shape \<open>(m, n)\<close>; it raises when the inner sizes differ, and when the storage classes do.
\<close>

lemma make_sdfg_cases:
  assumes "get_matmul_inputs sq fnd sdfg state n = Inr ((ea, oa, (m, k)), (eb, ob, (k', n')))"
  shows "make_sdfg sq fnd rt node_label sdfg state n =
           (if k \<noteq> k' then Inl (SyntaxError msg_sizes_match)
            else if storage oa \<noteq> storage ob then Inl (ValueError msg_same_storage)
            else Inr \<lparr>sdfg_label = node_label @ ''_sdfg'', state_label = node_label @ ''_state'',
                      added_arrays =
                        [\<lparr>array_name = ''_a'', array_shape = [m, k], array_dtype = dtype oa,
                          array_storage = storage oa\<rparr>,
                         \<lparr>array_name = ''_b'', array_shape = [k', n'], array_dtype = dtype ob,
                          array_storage = storage oa\<rparr>,
                         \<lparr>array_name = ''_c'', array_shape = [m, n'],
                          array_dtype = rt (dtype oa) (dtype ob), array_storage = storage oa\<rparr>],
                      map_ranges = [(''__i0'', m), (''__i1'', n'), (''__i2'', k)],
                      tasklet_code = ''__c = __a * __b''\<rparr>)"
  using assms by (simp add: make_sdfg_def Let_def)

text \<open>
  Claim C6. For squeezed inputs \<open>(m, k)\<close> and \<open>(k, n)\<close> of one storage class the
  portable expansion builds an SDFG whose \<open>_c\<close> has shape \<open>(m, n)\<close>, and it raises
  when the squeezed input ranks are not both two, when the inner sizes differ, or when
  the storage classes differ. The part on the ranks fails on the code: the shapes that
  \<open>make_sdfg\<close> tests with \<open>len(shape_a) != 2\<close> are the pairs of the last two sizes
  that \<open>_get_matmul_inputs\<close> returns, whatever the rank, and validation lets rank
  three pass when it detects a batch. The batched product of \<open>A[2,3,4]\<close> and
  \<open>B[2,4,5]\<close> is expanded, without an error, into the product of a \<open>3 \<times> 4\<close> and a
  \<open>4 \<times> 5\<close> matrix.
\<close>

theorem expansion_accepts_rank3_inputs:
  "expansion ex_squeezed_size ex_find_input_arraynode (\<lambda>t u. t) ''mm'' (Some ''float32'')
     ex_batched_sdfg ex_batched_state 2 =
   Inr \<lparr>sdfg_label = ''mm_sdfg'', state_label = ''mm_state'',
        added_arrays =
          [\<lparr>array_name = ''_a'', array_shape = [3, 4], array_dtype = ''float32'',
            array_storage = Other_Storage ''Default''\<rparr>,
           \<lparr>array_name = ''_b'', array_shape = [4, 5], array_dtype = ''float32'',
            array_storage = Other_Storage ''Default''\<rparr>,
           \<lparr>array_name = ''_c'', array_shape = [3, 5], array_dtype = ''float32'',
            array_storage = Other_Storage ''Default''\<rparr>],
        map_ranges = [(''__i0'', 3), (''__i1'', 5), (''__i2'', 4)],
        tasklet_code = ''__c = __a * __b''\<rparr>"
proof -
  have "expansion ex_squeezed_size ex_find_input_arraynode (\<lambda>t u. t) ''mm'' (Some ''float32'')
          ex_batched_sdfg ex_batched_state 2 =
        make_sdfg ex_squeezed_size ex_find_input_arraynode (\<lambda>t u. t) ''mm''
          ex_batched_sdfg ex_batched_state 2"
    by (simp only: expansion_def ex_batched_validates ebind_Inr option.case)
  then show ?thesis
    by (simp add: make_sdfg_def get_matmul_inputs_def
          ex_batched_state_def ex_batched_sdfg_def ex_matmul_in_edges
          ex_find_input_arraynode_def lookup_def ex_matmul_sdfg_def ex_squeezed_size_def
          full_range_def py_index_def Let_def ex_array_def)
qed

section \<open>\<open>FPGAGlobalToLocal\<close>\<close>

lemma set_local_twice: "set_local S (set_local S' ds) = set_local (S \<union> S') ds"
  by (auto simp: set_local_def fun_eq_iff)

lemma set_local_upd: "ds(k := (ds k)\<lparr>storage := FPGA_Local\<rparr>) = set_local {k} ds"
  by (auto simp: set_local_def fun_eq_iff)

lemma set_local_empty: "set_local {} ds = ds"
  by (simp add: set_local_def)

lemma transient_set_local: "transient (set_local S ds k) = transient (ds k)"
  by (simp add: set_local_def)

lemma refers_to_upd:
  "refers_to tna (sdfg\<lparr>desc_of := ds\<rparr>) k' k = refers_to tna sdfg k' k"
  by (simp add: refers_to_def node_refers_def)

text \<open>
  What the loop over the trace leaves in \<open>outer_node\<close>: the second node of the first
  entry of the state and the SDFG that has one; without such an entry \<open>None\<close>, or the
  value at the start when no entry is of the state and the SDFG.
\<close>

lemma find_outer_node_eq:
  "find_outer_node state sd trace outer_node =
     (case filter (\<lambda>t. state_trace t = state \<and> sdfg_trace t = sd \<and> snd (node_trace t) \<noteq> None)
             trace of
        [] \<Rightarrow> if list_ex (\<lambda>t. state_trace t = state \<and> sdfg_trace t = sd) trace
              then None else outer_node
      | t # _ \<Rightarrow> snd (node_trace t))"
proof (induction trace arbitrary: outer_node)
  case Nil
  show ?case by simp
next
  case (Cons t trace)
  show ?case
  proof (cases "state_trace t = state \<and> sdfg_trace t = sd")
    case False
    then show ?thesis using Cons.IH[of outer_node] by auto
  next
    case True
    show ?thesis
    proof (cases "snd (node_trace t)")
      case None
      with True show ?thesis using Cons.IH[of None]
        by (auto split: list.splits)
    next
      case (Some d)
      with True show ?thesis by simp
    qed
  qed
qed

lemma find_outer_node_names:
  "find_outer_node state sd trace None = Some name \<longleftrightarrow> names_array state sd name trace"
  by (simp add: find_outer_node_eq names_array_def split: list.splits)

lemma update_access_nodes_Inr:
  assumes "update_access_nodes tna sdfg sd name state ns ds = Inr ds'"
  shows "ds' = set_local {k'. \<exists>x\<in>set ns. node_refers tna sdfg state sd name x k'} ds"
  using assms
proof (induction ns arbitrary: ds)
  case Nil
  then show ?case by (simp add: set_local_empty)
next
  case (Cons x ns)
  obtain n kd graph where x: "x = ((n, kd), graph)" by (metis surj_pair)
  let ?R = "\<lambda>ns. {k'. \<exists>x\<in>set ns. node_refers tna sdfg state sd name x k'}"
  show ?case
  proof (cases "\<exists>d. kd = AccessNode d \<and> names_array state sd name (tna n graph (parent sdfg graph))")
    case True
    then obtain d where d: "kd = AccessNode d"
      and nm: "names_array state sd name (tna n graph (parent sdfg graph))" by blast
    from Cons.prems x d nm have
      run: "update_access_nodes tna sdfg sd name state ns (set_local {(parent sdfg graph, d)} ds)
            = Inr ds'"
      by (auto simp: set_local_upd find_outer_node_names split: if_splits)
    have "{k'. node_refers tna sdfg state sd name x k'} = {(parent sdfg graph, d)}"
      using x d nm by (auto simp: node_refers_def)
    then have "?R (x # ns) = ?R ns \<union> {(parent sdfg graph, d)}" by auto
    with Cons.IH[OF run] show ?thesis by (simp add: set_local_twice)
  next
    case False
    with Cons.prems x have run: "update_access_nodes tna sdfg sd name state ns ds = Inr ds'"
      by (cases kd) (auto simp: find_outer_node_names split: if_splits)
    have "{k'. node_refers tna sdfg state sd name x k'} = {}"
      using x False by (auto simp: node_refers_def)
    then have "?R (x # ns) = ?R ns" by auto
    with Cons.IH[OF run] show ?thesis by simp
  qed
qed

lemma update_access_nodes_total:
  assumes "\<forall>n d graph. ((n, AccessNode d), graph) \<in> set ns
             \<longrightarrow> (parent sdfg graph, d) \<in> set (arrays_recursive sdfg)"
  shows "\<exists>ds'. update_access_nodes tna sdfg sd name state ns ds = Inr ds'"
  using assms
proof (induction ns arbitrary: ds)
  case Nil
  show ?case by simp
next
  case (Cons x ns)
  obtain n kd graph where x: "x = ((n, kd), graph)" by (metis surj_pair)
  from Cons.prems have rest: "\<forall>n d graph. ((n, AccessNode d), graph) \<in> set ns
             \<longrightarrow> (parent sdfg graph, d) \<in> set (arrays_recursive sdfg)" by auto
  show ?case
    using Cons.IH[OF rest] Cons.prems unfolding x
    by (cases kd) auto
qed

lemma update_states_Inr:
  assumes "update_states tna sdfg sd name sts ds = Inr ds'"
  shows "ds' = set_local {k'. \<exists>state\<in>set sts. \<exists>x\<in>set (all_nodes_recursive sdfg state).
                              node_refers tna sdfg state sd name x k'} ds"
  using assms
proof (induction sts arbitrary: ds)
  case Nil
  then show ?case by (simp add: set_local_empty)
next
  case (Cons state sts)
  from Cons.prems obtain ds1 where
    one: "update_access_nodes tna sdfg sd name state (all_nodes_recursive sdfg state) ds
          = Inr ds1"
    and run: "update_states tna sdfg sd name sts ds1 = Inr ds'"
    by (auto simp: ebind_Inr_iff)
  have "{k'. \<exists>s\<in>set (state # sts). \<exists>x\<in>set (all_nodes_recursive sdfg s).
               node_refers tna sdfg s sd name x k'}
        = {k'. \<exists>s\<in>set sts. \<exists>x\<in>set (all_nodes_recursive sdfg s).
               node_refers tna sdfg s sd name x k'}
          \<union> {k'. \<exists>x\<in>set (all_nodes_recursive sdfg state).
               node_refers tna sdfg state sd name x k'}"
    by auto
  with Cons.IH[OF run] update_access_nodes_Inr[OF one] show ?case
    by (simp add: set_local_twice)
qed

lemma update_states_total:
  assumes "nodes_registered sdfg"
  shows "\<exists>ds'. update_states tna sdfg sd name sts ds = Inr ds'"
proof (induction sts arbitrary: ds)
  case Nil
  show ?case by simp
next
  case (Cons state sts)
  from assms have "\<forall>n d graph. ((n, AccessNode d), graph) \<in> set (all_nodes_recursive sdfg state)
             \<longrightarrow> (parent sdfg graph, d) \<in> set (arrays_recursive sdfg)"
    by (auto simp: nodes_registered_def)
  from update_access_nodes_total[OF this, of tna sd name state ds]
  obtain ds1 where "update_access_nodes tna sdfg sd name state (all_nodes_recursive sdfg state) ds
          = Inr ds1" by blast
  with Cons.IH[of ds1] show ?case by auto
qed

lemma qualifies_set_local:
  assumes "k \<notin> S \<or> \<not> transient (ds k)"
  shows "qualifies r (sdfg\<lparr>desc_of := set_local S ds\<rparr>) k
         = qualifies r (sdfg\<lparr>desc_of := ds\<rparr>) k"
  using assms by (auto simp: qualifies_def set_local_def)

text \<open>
  The loop over the arrays, from any descriptors \<open>ds\<close> and any \<open>count\<close>: where the
  descriptors that refer to an array of \<open>ks\<close>, other than the array's own, are not
  transient, a run without an exception reclassifies the qualifying arrays of \<open>ks\<close> and
  what refers to them, and counts the qualifying arrays.
\<close>

lemma arrays_loop_Inr:
  assumes "arrays_loop r tna sdfg ks (ds, c) = Inr (ds', c')"
    and "distinct ks"
    and "\<forall>k\<in>set ks. \<forall>k'. refers_to tna sdfg k' k \<and> k' \<noteq> k \<longrightarrow> \<not> transient (ds k')"
  shows "ds' = set_local (reclassified r tna (sdfg\<lparr>desc_of := ds\<rparr>) ks) ds
       \<and> c' = c + length (filter (qualifies r (sdfg\<lparr>desc_of := ds\<rparr>)) ks)"
  using assms
proof (induction ks arbitrary: ds c)
  case Nil
  then show ?case by (simp add: reclassified_def set_local_empty)
next
  case (Cons k ks)
  obtain sd name where k: "k = (sd, name)" by (cases k)
  let ?w = "sdfg\<lparr>desc_of := ds\<rparr>"
  show ?case
  proof (cases "qualifies r ?w k")
    case False
    with Cons.prems(1) k have run: "arrays_loop r tna sdfg ks (ds, c) = Inr (ds', c')"
      by (auto simp: qualifies_def Let_def split: if_splits option.splits)
    have "reclassified r tna ?w (k # ks) = reclassified r tna ?w ks"
      unfolding reclassified_def using False by (simp only: set_simps) blast
    with Cons.IH[OF run] Cons.prems(2,3) False show ?thesis by simp
  next
    case True
    let ?T = "{k'. k' = k \<or> refers_to tna sdfg k' k}"
    from True Cons.prems(1) k obtain ds1 where
      upd: "update_states tna sdfg sd name (sd_states sdfg sd)
              (ds((sd, name) := (ds (sd, name))\<lparr>storage := FPGA_Local\<rparr>)) = Inr ds1"
      and run: "arrays_loop r tna sdfg ks (ds1, c + 1) = Inr (ds', c')"
      by (auto simp: qualifies_def Let_def ebind_Inr_iff split: if_splits option.splits)
    have ds1: "ds1 = set_local ?T ds"
      using update_states_Inr[OF upd] k
      by (auto simp: set_local_upd set_local_twice refers_to_def
               intro!: arg_cong2[where f=set_local])
    have tr: "\<forall>k''\<in>set ks. \<forall>k'. refers_to tna sdfg k' k'' \<and> k' \<noteq> k''
                \<longrightarrow> \<not> transient (ds1 k')"
      using Cons.prems(3) by (simp add: ds1 transient_set_local)
    have same: "qualifies r (sdfg\<lparr>desc_of := ds1\<rparr>) k' = qualifies r ?w k'"
      if "k' \<in> set ks" for k'
    proof -
      have "k' \<noteq> k" using that Cons.prems(2) by auto
      then have "k' \<notin> ?T \<or> \<not> transient (ds k')"
        using Cons.prems(3)[rule_format, of k k'] by auto
      then show ?thesis unfolding ds1 by (rule qualifies_set_local)
    qed
    from Cons.IH[OF run _ tr] Cons.prems(2)
    have ih: "ds' = set_local (reclassified r tna (sdfg\<lparr>desc_of := ds1\<rparr>) ks) ds1"
      "c' = c + 1 + length (filter (qualifies r (sdfg\<lparr>desc_of := ds1\<rparr>)) ks)"
      by auto
    have r1: "reclassified r tna (sdfg\<lparr>desc_of := ds1\<rparr>) ks = reclassified r tna ?w ks"
      unfolding reclassified_def refers_to_upd using same by blast
    have f1: "filter (qualifies r (sdfg\<lparr>desc_of := ds1\<rparr>)) ks = filter (qualifies r ?w) ks"
      using same by (auto intro: filter_cong)
    have "reclassified r tna ?w (k # ks) = reclassified r tna ?w ks \<union> ?T"
      unfolding reclassified_def refers_to_upd using True by (simp only: set_simps) blast
    with ih r1 f1 True show ?thesis
      by (simp add: ds1 set_local_twice)
  qed
qed

text \<open>
  The transformation raises nothing when every access node names a descriptor of the
  SDFG it is in.
\<close>

lemma arrays_loop_total:
  assumes "nodes_registered sdfg"
  shows "\<exists>res. arrays_loop r tna sdfg ks acc = Inr res"
proof (induction ks arbitrary: acc)
  case Nil
  show ?case by simp
next
  case (Cons k ks)
  obtain sd name where k: "k = (sd, name)" by (cases k)
  obtain ds c where acc: "acc = (ds, c)" by (cases acc)
  have "\<exists>ds'. update_states tna sdfg sd name (sd_states sdfg sd) ds0 = Inr ds'"
    for ds0 :: "array_key \<Rightarrow> 'a Array"
    using assms by (rule update_states_total)
  then show ?case
    using Cons.IH unfolding k acc
    by (auto simp: Let_def ebind_Inr_iff split: option.splits) metis
qed

lemma FPGAGlobalToLocal_apply_total:
  assumes "nodes_registered sdfg"
  shows "\<exists>res. FPGAGlobalToLocal_apply r tna debugprint sdfg = Inr res"
  using arrays_loop_total[OF assms, of r tna "arrays_recursive sdfg" "(desc_of sdfg, 0)"]
  by (auto simp: FPGAGlobalToLocal_apply_def)

lemma ex_fpga_apply:
  "FPGAGlobalToLocal_apply ex_resolve ex_trace debugprint ex_fpga_sdfg =
     Inr (ex_fpga_sdfg\<lparr>desc_of :=
            set_local {(0, ''tmp''), (1, ''_out'')} (desc_of ex_fpga_sdfg)\<rparr>,
          1, if debugprint then Some 1 else None)"
proof -
  have "arrays_loop ex_resolve ex_trace ex_fpga_sdfg (arrays_recursive ex_fpga_sdfg)
          (desc_of ex_fpga_sdfg, 0) =
        Inr (set_local {(0, ''tmp''), (1, ''_out'')} (desc_of ex_fpga_sdfg), 1)"
    by (simp add: ex_fpga_sdfg_def ex_fpga_desc_def ex_resolve_def ex_trace_def set_local_def
          Let_def fun_eq_iff)
  then show ?thesis
    by (simp add: FPGAGlobalToLocal_apply_def)
qed

text \<open>
  Claim C8. \<open>apply\<close> changes the storage of exactly the descriptors that are
  transient, not shared, stored as \<open>FPGA_Global\<close> and of constant total size; the
  count is the number of these arrays; and the flag \<open>debugprint\<close> changes only what is
  printed. As stated, the first part fails: for every reclassified array the loop over
  the access nodes also sets the storage of the descriptors of the access nodes whose
  trace names the array. In the example the descriptor \<open>_out\<close> of the nested SDFG is
  not transient, does not qualify, and is moved from \<open>FPGA_Global\<close> to
  \<open>FPGA_Local\<close>.
\<close>

theorem FPGAGlobalToLocal_apply_changes_nested_descriptor:
  "\<not> qualifies ex_resolve ex_fpga_sdfg (1, ''_out'')
   \<and> storage (desc_of ex_fpga_sdfg (1, ''_out'')) = FPGA_Global
   \<and> (case FPGAGlobalToLocal_apply ex_resolve ex_trace False ex_fpga_sdfg of
        Inl e \<Rightarrow> False
      | Inr (sdfg', count, printed) \<Rightarrow> storage (desc_of sdfg' (1, ''_out'')) = FPGA_Local)"
  by (simp add: ex_fpga_apply set_local_def)
     (simp add: qualifies_def ex_fpga_sdfg_def ex_fpga_desc_def)

text \<open>
  Claim C8, amended. Let the pairs of \<open>arrays_recursive\<close> be distinct, and let the
  descriptors that refer to an array, other than its own, not be transient (as the
  arrays a nested SDFG binds to its connectors are). A descriptor refers to an array
  when it is the descriptor of an access node, reached from a state of the array's SDFG,
  in whose trace the first entry of that state and SDFG with a second node has the
  array as the \<open>data\<close> of that node. When \<open>apply\<close> returns, the SDFG differs from
  the one before in the storage of exactly the qualifying arrays and of the descriptors
  that refer to them, which is \<open>FPGA_Local\<close>; the count is the number of qualifying
  arrays; and with the other value of \<open>debugprint\<close> the SDFG and the count are the
  same, only the printed line is there or not.
\<close>

theorem FPGAGlobalToLocal_apply_reclassifies:
  assumes "distinct (arrays_recursive sdfg)"
    and "\<forall>k\<in>set (arrays_recursive sdfg). \<forall>k'.
           refers_to trace_nested_access sdfg k' k \<and> k' \<noteq> k
           \<longrightarrow> \<not> transient (desc_of sdfg k')"
    and "FPGAGlobalToLocal_apply r trace_nested_access debugprint sdfg
         = Inr (sdfg', count, printed)"
  shows "sdfg' = sdfg\<lparr>desc_of :=
                   set_local (reclassified r trace_nested_access sdfg (arrays_recursive sdfg))
                     (desc_of sdfg)\<rparr>
       \<and> count = length (filter (qualifies r sdfg) (arrays_recursive sdfg))
       \<and> printed = (if debugprint then Some count else None)
       \<and> FPGAGlobalToLocal_apply r trace_nested_access (\<not> debugprint) sdfg =
           Inr (sdfg', count, if debugprint then None else Some count)"
proof -
  from assms(3) obtain ds where
    run: "arrays_loop r trace_nested_access sdfg (arrays_recursive sdfg) (desc_of sdfg, 0)
          = Inr (ds, count)"
    and res: "sdfg' = sdfg\<lparr>desc_of := ds\<rparr>"
      "printed = (if debugprint then Some count else None)"
    by (auto simp: FPGAGlobalToLocal_apply_def ebind_Inr_iff)
  have "sdfg\<lparr>desc_of := desc_of sdfg\<rparr> = sdfg" by simp
  with arrays_loop_Inr[OF run assms(1,2)]
  have "ds = set_local (reclassified r trace_nested_access sdfg (arrays_recursive sdfg))
               (desc_of sdfg)"
    and "count = length (filter (qualifies r sdfg) (arrays_recursive sdfg))"
    by simp_all
  with run res show ?thesis
    by (simp add: FPGAGlobalToLocal_apply_def)
qed

text \<open>
  In the example \<open>tmp\<close> qualifies; \<open>_out\<close>, which the nested SDFG writes, refers
  to it; and \<open>_in\<close>, which the nested SDFG reads, does not, because \<open>tmp\<close> is the
  first node of the pair in its trace: \<open>_in\<close> keeps its storage.
\<close>

lemma ex_refers_to:
  "refers_to ex_trace ex_fpga_sdfg k' (0, ''tmp'') \<longleftrightarrow> k' = (0, ''tmp'') \<or> k' = (1, ''_out'')"
  by (cases k')
     (auto simp: refers_to_def node_refers_def names_array_def ex_fpga_sdfg_def ex_trace_def)

theorem FPGAGlobalToLocal_apply_reclassifies_witness:
  "distinct (arrays_recursive ex_fpga_sdfg)
   \<and> FPGAGlobalToLocal_apply ex_resolve ex_trace True ex_fpga_sdfg =
       Inr (ex_fpga_sdfg\<lparr>desc_of :=
              set_local {(0, ''tmp''), (1, ''_out'')} (desc_of ex_fpga_sdfg)\<rparr>, 1, Some 1)
   \<and> reclassified ex_resolve ex_trace ex_fpga_sdfg (arrays_recursive ex_fpga_sdfg) =
       {(0, ''tmp''), (1, ''_out'')}
   \<and> \<not> refers_to ex_trace ex_fpga_sdfg (1, ''_in'') (0, ''tmp'')
   \<and> length (filter (qualifies ex_resolve ex_fpga_sdfg) (arrays_recursive ex_fpga_sdfg)) = 1
   \<and> FPGAGlobalToLocal_apply ex_resolve ex_trace False ex_fpga_sdfg =
       Inr (ex_fpga_sdfg\<lparr>desc_of :=
              set_local {(0, ''tmp''), (1, ''_out'')} (desc_of ex_fpga_sdfg)\<rparr>, 1, None)"
proof -
  have d: "distinct (arrays_recursive ex_fpga_sdfg)"
    by (simp add: ex_fpga_sdfg_def)
  have ar: "arrays_recursive ex_fpga_sdfg = [(0, ''tmp''), (0, ''A''), (1, ''_in''), (1, ''_out'')]"
    by (simp add: ex_fpga_sdfg_def)
  have q: "qualifies ex_resolve ex_fpga_sdfg k \<longleftrightarrow> k = (0, ''tmp'')" for k
    by (auto simp: qualifies_def ex_fpga_sdfg_def ex_fpga_desc_def ex_resolve_def
          split: if_splits)
  have nt: "\<not> transient (desc_of ex_fpga_sdfg k)" if "k \<noteq> (0, ''tmp'')" for k
    using that by (simp add: ex_fpga_sdfg_def ex_fpga_desc_def)
  have h: "\<forall>k\<in>set (arrays_recursive ex_fpga_sdfg). \<forall>k'.
             refers_to ex_trace ex_fpga_sdfg k' k \<and> k' \<noteq> k
             \<longrightarrow> \<not> transient (desc_of ex_fpga_sdfg k')"
  proof (intro ballI allI impI)
    fix k k' assume "k \<in> set (arrays_recursive ex_fpga_sdfg)"
      and r: "refers_to ex_trace ex_fpga_sdfg k' k \<and> k' \<noteq> k"
    show "\<not> transient (desc_of ex_fpga_sdfg k')"
    proof (cases "k' = (0, ''tmp'')")
      case False
      then show ?thesis by (rule nt)
    next
      case True
      with r have "refers_to ex_trace ex_fpga_sdfg (0, ''tmp'') k" "k \<noteq> (0, ''tmp'')" by auto
      then have False
        by (cases k)
           (auto simp: refers_to_def node_refers_def names_array_def ex_fpga_sdfg_def
              ex_trace_def split: if_splits)
      then show ?thesis ..
    qed
  qed
  have ql: "length (filter (qualifies ex_resolve ex_fpga_sdfg) (arrays_recursive ex_fpga_sdfg))
           = 1"
    by (simp add: ar q)
  have r: "reclassified ex_resolve ex_trace ex_fpga_sdfg (arrays_recursive ex_fpga_sdfg) =
             {(0, ''tmp''), (1, ''_out'')}"
    unfolding reclassified_def
    by (auto simp: ar q ex_refers_to)
  have n: "\<not> refers_to ex_trace ex_fpga_sdfg (1, ''_in'') (0, ''tmp'')"
    by (simp add: ex_refers_to)
  from FPGAGlobalToLocal_apply_reclassifies [OF d h ex_fpga_apply [of True]] d ql r n
    ex_fpga_apply [of True]
  show ?thesis by simp
qed

section \<open>Map fission: rejected candidates\<close>

lemma ex_bool: "\<exists>b. b" "\<exists>b. \<not> b" "Ex Not"
  by blast+

lemma access_data_iff: "d \<in> set (access_data g n) \<longleftrightarrow> kind g n = AccessNode d"
  by (auto simp: access_data_def split: node.splits)

lemma all_transient_True:
  "all_transient arrs xs = Inr True \<Longrightarrow> a \<in> set xs \<Longrightarrow> \<exists>d. arrs a = Some d \<and> transient d"
  by (induction xs) (auto simp: ebind_Inr_iff lookup_Inr_iff split: if_splits)

lemma all_transient_total:
  "\<forall>a\<in>set xs. arrs a \<noteq> None \<Longrightarrow> \<exists>b. all_transient arrs xs = Inr b"
  by (induction xs) (auto simp: lookup_Some)

text \<open>
  Once the test on \<open>external_arrays\<close> has passed, every border array is the data of an
  access node that a component writes to.
\<close>

lemma border_subset_outputs:
  assumes "filter (\<lambda>a. a \<notin> set (internal_border_arrays cs sg)) (border_arrays cs sg so si) = []"
    and "a \<in> set (border_arrays cs sg so si)"
  shows "a \<in> set (component_outputs cs sg)"
proof -
  from assms have "a \<in> set (internal_border_arrays cs sg)"
    by (auto simp: filter_empty_conv)
  then show ?thesis by (simp add: internal_border_arrays_def)
qed

lemma border_arrays_access:
  "a \<in> set (border_arrays cs sg so si) \<Longrightarrow> \<exists>n. kind (graph sg) n = AccessNode a"
  by (auto simp: border_arrays_def Let_def access_data_iff split: if_splits)

lemma test_subgraph_True:
  assumes "test_subgraph lib expr_index sdfg state_id g nsdfg sg = Inr True"
  shows "\<not> violates lib expr_index sdfg state_id g nsdfg sg"
proof -
  from assms obtain cs where cs: "components lib sg = Inr cs"
    and n: "\<not> (sg_nodes sg \<noteq> [] \<and> length cs \<le> 1)"
    and ext: "filter (\<lambda>a. a \<notin> set (internal_border_arrays cs sg))
                (border_arrays cs sg (source_nodes sg) (sink_nodes sg)) = []"
    and tr: "all_transient (if expr_index = 0 then arrays sdfg else arrays nsdfg)
               (border_arrays cs sg (source_nodes sg) (sink_nodes sg)) = Inr True"
    and out: "expr_index = 0 \<longrightarrow>
                \<not> list_ex (\<lambda>d. d \<in> set (not_subgraph sdfg state_id g (sg_nodes sg)))
                    (component_outputs cs sg)"
    by (auto simp: test_subgraph_def Let_def ebind_Inr_iff split: if_splits)
  let ?arrs = "if expr_index = 0 then arrays sdfg else arrays nsdfg"
  let ?border = "border_arrays cs sg (source_nodes sg) (sink_nodes sg)"
  have t: "\<not> (\<exists>a d. a \<in> set ?border \<and> ?arrs a = Some d \<and> \<not> transient d)"
    using all_transient_True[OF tr] by fastforce
  have o: "\<not> (expr_index = 0 \<and>
               (\<exists>a. a \<in> set ?border
                   \<and> a \<in> set (not_subgraph sdfg state_id g (sg_nodes sg))))"
    using border_subset_outputs[OF ext] out by (auto simp: list_ex_iff)
  show ?thesis
    unfolding violates_def cs using n t o by blast
qed

lemma test_subgraphs_True:
  assumes "test_subgraphs lib expr_index sdfg state_id g nsdfg sgs = Inr True"
    and "sg \<in> set sgs"
  shows "test_subgraph lib expr_index sdfg state_id g nsdfg sg = Inr True"
  using assms
  by (induction sgs) (auto simp: ebind_Inr_iff split: if_splits)

text \<open>A candidate that is accepted has no dynamic input and no violation.\<close>

lemma can_be_applied_True:
  assumes "MapFission_can_be_applied lib g state_id map_node nsdfg expr_index sdfg = Inr True"
  shows "\<not> has_dynamic_map_inputs lib g map_node"
    and "sg \<in> set (subgraphs_of lib g map_node nsdfg expr_index)
         \<Longrightarrow> \<not> violates lib expr_index sdfg state_id g nsdfg sg"
  using assms test_subgraphs_True test_subgraph_True
  by (auto simp: MapFission_can_be_applied_def split: if_splits)

lemma components_of_total:
  assumes "list_all (\<lambda>n. case kind g n of EntryNode m \<Rightarrow> exit_nodes lib g n \<noteq> []
                                          | _ \<Rightarrow> True) ns"
  shows "\<exists>cs. components_of lib g ns = Inr cs"
  using assms
proof (induction ns)
  case Nil
  show ?case by simp
next
  case (Cons n ns)
  then obtain cs where cs: "components_of lib g ns = Inr cs" by auto
  show ?case
  proof (cases "kind g n")
    case (EntryNode m)
    with Cons.prems have "exit_nodes lib g n \<noteq> []" by simp
    then show ?thesis using EntryNode cs by (simp add: py_index_0)
  qed (simp_all add: cs)
qed

lemma test_subgraph_total:
  assumes "well_formed lib expr_index sdfg nsdfg sg"
  shows "\<exists>b. test_subgraph lib expr_index sdfg state_id g nsdfg sg = Inr b"
proof -
  from assms obtain cs where cs: "components lib sg = Inr cs"
    using components_of_total[where g="graph sg" and lib=lib and ns="scope_children lib sg"]
    by (auto simp: well_formed_def exits_exist_def components_def)
  let ?arrs = "if expr_index = 0 then arrays sdfg else arrays nsdfg"
  have "\<forall>a\<in>set (border_arrays cs sg (source_nodes sg) (sink_nodes sg)). ?arrs a \<noteq> None"
    using assms border_arrays_access[of _ cs sg]
    unfolding well_formed_def registered_def by blast
  from all_transient_total[OF this] obtain b where
    "all_transient ?arrs (border_arrays cs sg (source_nodes sg) (sink_nodes sg)) = Inr b" ..
  then show ?thesis
    by (cases b) (simp_all add: test_subgraph_def cs Let_def ex_bool)
qed

lemma test_subgraphs_total:
  assumes "\<forall>sg\<in>set sgs. well_formed lib expr_index sdfg nsdfg sg"
  shows "\<exists>b. test_subgraphs lib expr_index sdfg state_id g nsdfg sgs = Inr b"
  using assms
proof (induction sgs)
  case Nil
  show ?case by (simp add: ex_bool)
next
  case (Cons sg sgs)
  have wf: "well_formed lib expr_index sdfg nsdfg sg" using Cons.prems by simp
  from test_subgraph_total[OF wf] obtain b where
    b: "test_subgraph lib expr_index sdfg state_id g nsdfg sg = Inr b" by blast
  have ih: "\<exists>b. test_subgraphs lib expr_index sdfg state_id g nsdfg sgs = Inr b"
    using Cons by simp
  show ?case
  proof (cases b)
    case True
    with b ih show ?thesis by simp
  next
    case False
    with b show ?thesis by (simp add: ex_bool)
  qed
qed

text \<open>On a well-formed graph \<open>can_be_applied\<close> raises nothing.\<close>

lemma can_be_applied_total:
  assumes "\<forall>sg\<in>set (subgraphs_of lib g map_node nsdfg expr_index).
             well_formed lib expr_index sdfg nsdfg sg"
  shows "\<exists>b. MapFission_can_be_applied lib g state_id map_node nsdfg expr_index sdfg = Inr b"
proof -
  obtain b where "test_subgraphs lib expr_index sdfg state_id g nsdfg
                    (subgraphs_of lib g map_node nsdfg expr_index) = Inr b"
    using test_subgraphs_total[OF assms] by blast
  then show ?thesis
    by (cases "has_dynamic_map_inputs lib g map_node";
        cases "expr_index \<noteq> 0 \<and> 1 < length (remdups (map dst (out_edges g map_node)))")
       (simp_all add: MapFission_can_be_applied_def ex_bool)
qed

lemma ex_api_sel:
  "has_dynamic_map_inputs (ex_api scope) g n =
     list_ex (\<lambda>e. data (memlet e) \<noteq> None
                   \<and> (case dst_conn e of None \<Rightarrow> True | Some c \<Rightarrow> take 3 c \<noteq> ''IN_''))
       (in_edges g n)"
  "scope_subgraph (ex_api scope) g n =
     filter (\<lambda>v. in_scope scope (length (nodes g)) n v \<and> v \<notin> set (ex_exit_nodes scope g n))
       (nodes g)"
  "scope_children (ex_api scope) sg =
     filter (\<lambda>v. case scope v of None \<Rightarrow> True | Some p \<Rightarrow> p \<notin> set (sg_nodes sg))
       (sg_nodes sg)"
  "exit_nodes (ex_api scope) = ex_exit_nodes scope"
  "range_size (ex_api scope) = map (\<lambda>(b, e, s). (e - b + 1) div s)"
  "from_array (ex_api scope) desc = full_range (shape desc)"
  by (simp_all add: ex_api_def)

text \<open>The first example, step by step.\<close>

lemma ex_in_scope: "in_scope ex_scope 7 1 v = (v \<in> {2, 3, 4, 5})"
  by (simp add: eval_nat_numeral ex_scope_def)

lemma ex_view:
  "scope_view (ex_api ex_scope) ex_fission_state 1 =
     \<lparr>graph = ex_fission_state, is_state = False, sg_nodes = [2, 3, 4]\<rparr>"
  by (simp add: scope_view_def ex_api_sel ex_fission_state_def ex_in_scope ex_exit_nodes_def
        ex_scope_def)

lemma ex_components:
  "components (ex_api ex_scope)
     \<lparr>graph = ex_fission_state, is_state = False, sg_nodes = [2, 3, 4]\<rparr> =
   Inr [(2, 2), (4, 4)]"
  by (simp add: components_def ex_api_sel ex_scope_def ex_fission_state_def)

lemma ex_border:
  "border_arrays [(2, 2), (4, 4)]
     \<lparr>graph = ex_fission_state, is_state = False, sg_nodes = [2, 3, 4]\<rparr> so si = [''tmp'']"
  by (simp add: border_arrays_def sg_in_edges_def sg_out_edges_def in_edges_def out_edges_def
        ex_fission_state_def ex_edge_def access_data_def)

lemma ex_internal:
  "internal_border_arrays [(2, 2), (4, 4)]
     \<lparr>graph = ex_fission_state, is_state = False, sg_nodes = [2, 3, 4]\<rparr> = [''tmp'']"
  by (simp add: internal_border_arrays_def component_inputs_def component_outputs_def
        sg_in_edges_def sg_out_edges_def in_edges_def out_edges_def ex_fission_state_def
        ex_edge_def access_data_def)

lemma ex_outputs:
  "component_outputs [(2, 2), (4, 4)]
     \<lparr>graph = ex_fission_state, is_state = False, sg_nodes = [2, 3, 4]\<rparr> = [''tmp'']"
  by (simp add: component_outputs_def sg_out_edges_def out_edges_def ex_fission_state_def
        ex_edge_def access_data_def)

lemma ex_not_subgraph:
  "not_subgraph ex_fission_sdfg 0 ex_fission_state [2, 3, 4] = [''A'', ''B'']"
  by (simp add: not_subgraph_def ex_fission_sdfg_def ex_fission_state_def access_data_def)

lemma ex_dyn: "\<not> has_dynamic_map_inputs (ex_api ex_scope) ex_fission_state 1"
  by (simp add: ex_api_sel in_edges_def ex_fission_state_def ex_edge_def ex_memlet_def)

lemma ex_test:
  "test_subgraph (ex_api ex_scope) 0 ex_fission_sdfg 0 ex_fission_state ex_nested_one
     \<lparr>graph = ex_fission_state, is_state = False, sg_nodes = [2, 3, 4]\<rparr> = Inr True"
  by (simp add: test_subgraph_def ex_components ex_border ex_internal ex_outputs
        ex_not_subgraph Let_def)
     (simp add: ex_fission_sdfg_def lookup_def ex_array_def)

text \<open>The candidate of the first example is accepted.\<close>

lemma ex_fission_accepted:
  "MapFission_can_be_applied (ex_api ex_scope) ex_fission_state 0 1 ex_nested_one 0
     ex_fission_sdfg = Inr True"
  using ex_view ex_dyn ex_test
  by (simp add: MapFission_can_be_applied_def subgraphs_of_def)

text \<open>
  Claim C3. \<open>can_be_applied\<close> returns \<open>False\<close> whenever the scope has at most one
  component, or the map has dynamic inputs, or a border array is not transient, or a
  border array is also accessed outside the subgraph. As stated, the first part fails:
  the test on the number of components is guarded by \<open>len(snodes) > 0\<close>, and a map
  whose scope is empty has no component and is reported applicable.
\<close>

theorem can_be_applied_accepts_empty_scope:
  "components (ex_api ex_empty_scope)
     (scope_view (ex_api ex_empty_scope) ex_empty_map_state 0) = Inr []
   \<and> MapFission_can_be_applied (ex_api ex_empty_scope) ex_empty_map_state 0 0 ex_nested_one 0
       ex_empty_map_sdfg = Inr True"
proof -
  have v: "scope_view (ex_api ex_empty_scope) ex_empty_map_state 0 =
             \<lparr>graph = ex_empty_map_state, is_state = False, sg_nodes = []\<rparr>"
    by (simp add: scope_view_def ex_api_sel ex_empty_map_state_def ex_exit_nodes_def
          ex_empty_scope_def eval_nat_numeral)
  have c: "components (ex_api ex_empty_scope)
             \<lparr>graph = ex_empty_map_state, is_state = False, sg_nodes = []\<rparr> = Inr []"
    by (simp add: components_def ex_api_sel)
  have d: "\<not> has_dynamic_map_inputs (ex_api ex_empty_scope) ex_empty_map_state 0"
    by (simp add: ex_api_sel in_edges_def ex_empty_map_state_def ex_edge_def)
  have t: "test_subgraph (ex_api ex_empty_scope) 0 ex_empty_map_sdfg 0 ex_empty_map_state
             ex_nested_one \<lparr>graph = ex_empty_map_state, is_state = False, sg_nodes = []\<rparr>
           = Inr True"
    by (simp add: test_subgraph_def c Let_def border_arrays_def component_outputs_def)
  show ?thesis
    using v c d t by (simp add: MapFission_can_be_applied_def subgraphs_of_def)
qed

text \<open>
  Claim C3, amended. Whenever the map has dynamic inputs, or one of the tested
  subgraphs has nodes and at most one component, or has a border array that is not
  transient, or (for the first expression, a map with a subgraph) has a border array
  that is the data of an access node outside the subgraph or in another state, the
  candidate is not reported applicable; and on a well-formed graph, where the function
  raises nothing, it returns \<open>False\<close>.
\<close>

theorem can_be_applied_rejects:
  assumes "has_dynamic_map_inputs lib g map_node
           \<or> (\<exists>sg\<in>set (subgraphs_of lib g map_node nsdfg expr_index).
                  violates lib expr_index sdfg state_id g nsdfg sg)"
  shows "MapFission_can_be_applied lib g state_id map_node nsdfg expr_index sdfg \<noteq> Inr True
       \<and> ((\<forall>sg\<in>set (subgraphs_of lib g map_node nsdfg expr_index).
              well_formed lib expr_index sdfg nsdfg sg)
            \<longrightarrow> MapFission_can_be_applied lib g state_id map_node nsdfg expr_index sdfg
                = Inr False)"
proof -
  have no: "MapFission_can_be_applied lib g state_id map_node nsdfg expr_index sdfg
            \<noteq> Inr True"
    using assms can_be_applied_True by blast
  moreover
  have "MapFission_can_be_applied lib g state_id map_node nsdfg expr_index sdfg = Inr False"
    if "\<forall>sg\<in>set (subgraphs_of lib g map_node nsdfg expr_index).
              well_formed lib expr_index sdfg nsdfg sg"
    using can_be_applied_total[OF that, of state_id] no by auto
  ultimately show ?thesis by blast
qed

theorem can_be_applied_rejects_witness:
  "violates (ex_api ex_scope) 0 ex_fission_sdfg_visible 0 ex_fission_state ex_nested_one
     (scope_view (ex_api ex_scope) ex_fission_state 1)
   \<and> MapFission_can_be_applied (ex_api ex_scope) ex_fission_state 0 1 ex_nested_one 0
       ex_fission_sdfg_visible = Inr False"
proof -
  let ?sg = "\<lparr>graph = ex_fission_state, is_state = False, sg_nodes = [2, 3, 4]\<rparr>"
  have tmp: "arrays ex_fission_sdfg_visible ''tmp'' = Some (ex_array [1] [1])"
    by (simp add: ex_fission_sdfg_visible_def)
  have v: "violates (ex_api ex_scope) 0 ex_fission_sdfg_visible 0 ex_fission_state
             ex_nested_one ?sg"
    unfolding violates_def ex_components
    by (rule exI[where x="[(2, 2), (4, 4)]"])
       (simp add: ex_border tmp, simp add: ex_array_def)
  have reg: "registered (arrays ex_fission_sdfg_visible) ex_fission_state"
    by (auto simp: registered_def ex_fission_sdfg_visible_def ex_fission_sdfg_def
          ex_fission_state_def split: if_splits)
  have ex: "exits_exist (ex_api ex_scope) ?sg"
    by (simp add: exits_exist_def ex_api_sel ex_scope_def ex_fission_state_def)
  have wf: "\<forall>sg\<in>set (subgraphs_of (ex_api ex_scope) ex_fission_state 1 ex_nested_one 0).
              well_formed (ex_api ex_scope) 0 ex_fission_sdfg_visible ex_nested_one sg"
    using reg ex ex_view by (simp add: subgraphs_of_def well_formed_def)
  have v': "\<exists>sg\<in>set (subgraphs_of (ex_api ex_scope) ex_fission_state 1 ex_nested_one 0).
              violates (ex_api ex_scope) 0 ex_fission_sdfg_visible 0 ex_fission_state
                ex_nested_one sg"
    using v ex_view by (simp add: subgraphs_of_def)
  from can_be_applied_rejects [OF disjI2 [OF v']] wf v ex_view
  show ?thesis by simp
qed

section \<open>Map fission: the descriptors after \<open>apply\<close>\<close>

lemma fission_state_eq:
  assumes "components lib sg = Inr cs"
    and "edge_to_outer expr_index g nsdfg_node st (source_nodes sg) (sink_nodes sg) = Inr eto"
    and "add_scalars lib (range_size lib (map_range outer_map)) (scalars cs sg) (st, parent_arrays)
           = Inr (st1, arrs1)"
    and "augment_arrays (range_size lib (map_range outer_map))
           (border_arrays cs sg (source_nodes sg) (sink_nodes sg)) arrs1 = Inr arrs2"
    and "(if expr_index = 1
          then match_outer eto outer_arrays st (source_nodes sg @ sink_nodes sg) [] arrs2
          else Inr arrs2) = Inr arrs3"
  shows "fission_state lib expr_index g nsdfg_node outer_map outer_arrays st sg parent_arrays
         = Inr (snd (add_maps outer_map cs ([], st1)), arrs3)"
  using assms
  by (simp add: fission_state_def Let_def split: prod.splits)


lemma inner_components:
  "4 \<le> k \<Longrightarrow> components (ex_api ex_nested_scope) (state_view (ex_inner_state k)) = Inr [(k + 1, k + 1), (k + 3, k + 3)]"
  by (simp add: components_def ex_api_sel state_view_def ex_inner_state_def ex_nested_scope_def)

lemma inner_sources: "source_nodes (state_view (ex_inner_state k)) = [k]"
  by (simp add: source_nodes_def sg_in_edges_def state_view_def in_edges_def ex_inner_state_def ex_edge_def)

lemma inner_sinks: "sink_nodes (state_view (ex_inner_state k)) = [k + 4]"
  by (simp add: sink_nodes_def sg_out_edges_def state_view_def out_edges_def ex_inner_state_def ex_edge_def)

lemma inner_border: "border_arrays [(k + 1, k + 1), (k + 3, k + 3)] (state_view (ex_inner_state k)) [k] [k + 4] = [''tmp'']"
  by (simp add: border_arrays_def sg_in_edges_def sg_out_edges_def state_view_def in_edges_def out_edges_def ex_inner_state_def ex_edge_def access_data_def)

lemma inner_scalars: "scalars [(k + 1, k + 1), (k + 3, k + 3)] (state_view (ex_inner_state k)) = []"
  by (simp add: scalars_def scalar_edges_def sg_out_edges_def state_view_def out_edges_def ex_inner_state_def ex_edge_def)

lemma inner_eto: "edge_to_outer 1 ex_outer_state 2 (ex_inner_state k) [k] [k + 4] =
   Inr [(k + 4, ex_edge 2 (Some ''b'') 3 (Some ''IN_B'') (ex_memlet ''B'' [(0, 0, 1)])),
        (k, ex_edge 1 (Some ''OUT_A'') 2 (Some ''a'') (ex_memlet ''A'' [(0, 0, 1)]))]"
  by (simp add: edge_to_outer_def ex_inner_state_def next_edge_def in_edges_def out_edges_def ex_outer_state_def ex_edge_def)

lemma ex_mapsize: "range_size (ex_api scope) (map_range ex_map) = [8]"
  by (simp add: ex_api_sel ex_map_def)

lemma inner_fission:
  assumes k: "4 \<le> k"
    and a: "arrs ''a'' = Some da" and b: "arrs ''b'' = Some db" and t: "arrs ''tmp'' = Some dt"
  shows "fission_state (ex_api ex_nested_scope) 1 ex_outer_state 2 ex_map (arrays ex_outer_sdfg)
           (ex_inner_state k) (state_view (ex_inner_state k)) arrs =
         Inr (snd (add_maps ex_map [(k + 1, k + 1), (k + 3, k + 3)] ([], ex_inner_state k)),
              arrs(''tmp'' \<mapsto> augment [8] dt,
                   ''a'' \<mapsto> da\<lparr>shape := [8], strides := [1], total_size := 8\<rparr>,
                   ''b'' \<mapsto> db\<lparr>shape := [8], strides := [1], total_size := 8\<rparr>))"
proof (rule fission_state_eq[OF inner_components[OF k]])
  show "edge_to_outer 1 ex_outer_state 2 (ex_inner_state k)
          (source_nodes (state_view (ex_inner_state k)))
          (sink_nodes (state_view (ex_inner_state k))) =
        Inr [(k + 4, ex_edge 2 (Some ''b'') 3 (Some ''IN_B'') (ex_memlet ''B'' [(0, 0, 1)])),
             (k, ex_edge 1 (Some ''OUT_A'') 2 (Some ''a'') (ex_memlet ''A'' [(0, 0, 1)]))]"
    by (simp only: inner_sources inner_sinks inner_eto)
  show "add_scalars (ex_api ex_nested_scope)
          (range_size (ex_api ex_nested_scope) (map_range ex_map))
          (scalars [(k + 1, k + 1), (k + 3, k + 3)] (state_view (ex_inner_state k)))
          (ex_inner_state k, arrs) = Inr (ex_inner_state k, arrs)"
    using inner_scalars[of k] by simp
  show "augment_arrays (range_size (ex_api ex_nested_scope) (map_range ex_map))
          (border_arrays [(k + 1, k + 1), (k + 3, k + 3)] (state_view (ex_inner_state k))
             (source_nodes (state_view (ex_inner_state k)))
             (sink_nodes (state_view (ex_inner_state k)))) arrs =
        Inr (arrs(''tmp'' \<mapsto> augment [8] dt))"
    using inner_border[of k] t by (simp add: inner_sources inner_sinks ex_mapsize lookup_def)
  show "(if (1::nat) = 1
         then match_outer
                [(k + 4, ex_edge 2 (Some ''b'') 3 (Some ''IN_B'') (ex_memlet ''B'' [(0, 0, 1)])),
                 (k, ex_edge 1 (Some ''OUT_A'') 2 (Some ''a'') (ex_memlet ''A'' [(0, 0, 1)]))]
                (arrays ex_outer_sdfg) (ex_inner_state k)
                (source_nodes (state_view (ex_inner_state k))
                 @ sink_nodes (state_view (ex_inner_state k))) []
                (arrs(''tmp'' \<mapsto> augment [8] dt))
         else Inr (arrs(''tmp'' \<mapsto> augment [8] dt))) =
        Inr (arrs(''tmp'' \<mapsto> augment [8] dt,
                  ''a'' \<mapsto> da\<lparr>shape := [8], strides := [1], total_size := 8\<rparr>,
                  ''b'' \<mapsto> db\<lparr>shape := [8], strides := [1], total_size := 8\<rparr>))"
    unfolding inner_sources inner_sinks
    using a b
    by (simp add: ex_inner_state_def lookup_def ex_edge_def
          ex_memlet_def ex_outer_sdfg_def ex_array_def)
qed

lemma apply_nested_eq:
  assumes "state_id < length (states sdfg)" "states sdfg ! state_id = g"
    and "exit_nodes lib g map_entry = map_exit # xs"
    and "kind g map_entry = EntryNode m"
    and "fission_states lib 1 g nsdfg_node (maps g m) (arrays sdfg) (states nsdfg) (arrays nsdfg)
         = Inr (sts, arrs)"
    and "reconnect lib (arrays sdfg) map_entry map_exit nsdfg_node g = Inr g1"
  shows "MapFission_apply lib state_id map_entry nsdfg_node 1 (sdfg, nsdfg) =
         Inr (sdfg\<lparr>states := (states sdfg)
                    [state_id := remove_nodes_from [map_entry, map_exit] g1]\<rparr>,
              nsdfg\<lparr>arrays := arrs, states := sts\<rparr>)"
  using assms
  by (simp add: MapFission_apply_def py_index_def)

lemma ex_reconnect:
  "reconnect (ex_api ex_nested_scope) (arrays ex_outer_sdfg) 1 3 2 ex_outer_state =
   Inr (ex_outer_state\<lparr>edges :=
     [ex_edge 0 None 1 (Some ''IN_A'') (ex_memlet ''A'' [(0, 7, 1)]),
      ex_edge 1 (Some ''OUT_A'') 2 (Some ''a'') (ex_memlet ''A'' [(0, 0, 1)]),
      ex_edge 2 (Some ''b'') 3 (Some ''IN_B'') (ex_memlet ''B'' [(0, 0, 1)]),
      ex_edge 3 (Some ''OUT_B'') 4 None (ex_memlet ''B'' [(0, 7, 1)]),
      ex_edge 0 None 2 (Some ''a'') (ex_memlet ''A'' [(0, 7, 1)]),
      ex_edge 2 (Some ''b'') 4 None (ex_memlet ''B'' [(0, 7, 1)])]\<rparr>)"
  by (simp add: reconnect_def in_edge_positions_def out_edge_positions_def ex_outer_state_def
        ex_edge_def ex_memlet_def upt_rec[of _ "numeral _"] upt_rec[of 0] ex_outer_sdfg_def lookup_def set_subset_def
        ex_api_sel ex_array_def full_range_def next_edge_def out_edges_def in_edges_def Let_def)

lemma ex_two_states:
  "fission_states (ex_api ex_nested_scope) 1 ex_outer_state 2 ex_map (arrays ex_outer_sdfg)
     [ex_inner_state 10, ex_inner_state 20] ex_inner_arrays =
   Inr ([snd (add_maps ex_map [(11, 11), (13, 13)] ([], ex_inner_state 10)),
         snd (add_maps ex_map [(21, 21), (23, 23)] ([], ex_inner_state 20))],
        ex_inner_arrays
          (''tmp'' \<mapsto> augment [8] ((ex_array [1] [1])\<lparr>transient := True\<rparr>),
           ''a'' \<mapsto> ex_array [8] [1], ''b'' \<mapsto> ex_array [8] [1],
           ''tmp'' \<mapsto> augment [8] (augment [8] ((ex_array [1] [1])\<lparr>transient := True\<rparr>)),
           ''a'' \<mapsto> ex_array [8] [1], ''b'' \<mapsto> ex_array [8] [1]))"
proof -
  have 1: "fission_state (ex_api ex_nested_scope) 1 ex_outer_state 2 ex_map (arrays ex_outer_sdfg)
           (ex_inner_state 10) (state_view (ex_inner_state 10)) ex_inner_arrays =
         Inr (snd (add_maps ex_map [(11, 11), (13, 13)] ([], ex_inner_state 10)),
              ex_inner_arrays(''tmp'' \<mapsto> augment [8] ((ex_array [1] [1])\<lparr>transient := True\<rparr>),
                   ''a'' \<mapsto> ex_array [8] [1],
                   ''b'' \<mapsto> ex_array [8] [1]))"
    using inner_fission[of 10 ex_inner_arrays "ex_array [1] [1]" "ex_array [1] [1]"
            "(ex_array [1] [1])\<lparr>transient := True\<rparr>"]
    by (simp add: ex_inner_arrays_def ex_array_def)
  let ?arrs = "ex_inner_arrays(''tmp'' \<mapsto> augment [8] ((ex_array [1] [1])\<lparr>transient := True\<rparr>),
                   ''a'' \<mapsto> ex_array [8] [1],
                   ''b'' \<mapsto> ex_array [8] [1])"
  have 2: "fission_state (ex_api ex_nested_scope) 1 ex_outer_state 2 ex_map (arrays ex_outer_sdfg)
           (ex_inner_state 20) (state_view (ex_inner_state 20)) ?arrs =
         Inr (snd (add_maps ex_map [(21, 21), (23, 23)] ([], ex_inner_state 20)),
              ?arrs(''tmp'' \<mapsto> augment [8] (augment [8] ((ex_array [1] [1])\<lparr>transient := True\<rparr>)),
                   ''a'' \<mapsto> ex_array [8] [1],
                   ''b'' \<mapsto> ex_array [8] [1]))"
    using inner_fission[of 20 ?arrs "ex_array [8] [1]" "ex_array [8] [1]"
            "augment [8] ((ex_array [1] [1])\<lparr>transient := True\<rparr>)"]
    by (simp add: ex_array_def)
  show ?thesis
    by (simp only: fission_states.simps 1 2 ebind_Inr prod.case)
qed

lemma inner_internal:
  "internal_border_arrays [(k + 1, k + 1), (k + 3, k + 3)] (state_view (ex_inner_state k)) = [''tmp'']"
  by (simp add: internal_border_arrays_def component_inputs_def component_outputs_def
        state_view_def ex_inner_state_def sg_in_edges_def sg_out_edges_def in_edges_def out_edges_def
        ex_edge_def ex_memlet_def access_data_def)

lemma inner_test:
  assumes "4 \<le> k"
  shows "test_subgraph (ex_api ex_nested_scope) 1 ex_outer_sdfg 0 ex_outer_state ex_nested_two
     (state_view (ex_inner_state k)) = Inr True"
  using inner_border[of k] inner_internal[of k]
  by (simp add: test_subgraph_def inner_components[OF assms] inner_sources inner_sinks Let_def)
     (simp add: ex_nested_two_def ex_inner_arrays_def lookup_def ex_array_def)

lemma ex_nested_two_accepted:
  "MapFission_can_be_applied (ex_api ex_nested_scope) ex_outer_state 0 1 ex_nested_two 1
     ex_outer_sdfg = Inr True"
proof -
  have "\<not> has_dynamic_map_inputs (ex_api ex_nested_scope) ex_outer_state 1"
    by (simp add: ex_api_sel in_edges_def ex_outer_state_def ex_edge_def ex_memlet_def)
  moreover have "remdups (map dst (out_edges ex_outer_state 1)) = [2]"
    by (simp add: out_edges_def ex_outer_state_def ex_edge_def)
  moreover have "states ex_nested_two = [ex_inner_state 10, ex_inner_state 20]"
    by (simp add: ex_nested_two_def)
  ultimately show ?thesis
    using inner_test[of 10] inner_test[of 20]
    by (simp add: MapFission_can_be_applied_def subgraphs_of_def)
qed

lemma ex_nested_two_apply:
  "MapFission_apply (ex_api ex_nested_scope) 0 1 2 1 (ex_outer_sdfg, ex_nested_two) =
   Inr (ex_outer_sdfg\<lparr>states := [remove_nodes_from [1, 3] (ex_outer_state\<lparr>edges :=
     [ex_edge 0 None 1 (Some ''IN_A'') (ex_memlet ''A'' [(0, 7, 1)]),
      ex_edge 1 (Some ''OUT_A'') 2 (Some ''a'') (ex_memlet ''A'' [(0, 0, 1)]),
      ex_edge 2 (Some ''b'') 3 (Some ''IN_B'') (ex_memlet ''B'' [(0, 0, 1)]),
      ex_edge 3 (Some ''OUT_B'') 4 None (ex_memlet ''B'' [(0, 7, 1)]),
      ex_edge 0 None 2 (Some ''a'') (ex_memlet ''A'' [(0, 7, 1)]),
      ex_edge 2 (Some ''b'') 4 None (ex_memlet ''B'' [(0, 7, 1)])]\<rparr>)]\<rparr>,
        ex_nested_two\<lparr>arrays := ex_inner_arrays
          (''tmp'' \<mapsto> augment [8] ((ex_array [1] [1])\<lparr>transient := True\<rparr>),
           ''a'' \<mapsto> ex_array [8] [1], ''b'' \<mapsto> ex_array [8] [1],
           ''tmp'' \<mapsto> augment [8] (augment [8] ((ex_array [1] [1])\<lparr>transient := True\<rparr>)),
           ''a'' \<mapsto> ex_array [8] [1], ''b'' \<mapsto> ex_array [8] [1]),
          states := [snd (add_maps ex_map [(11, 11), (13, 13)] ([], ex_inner_state 10)),
         snd (add_maps ex_map [(21, 21), (23, 23)] ([], ex_inner_state 20))]\<rparr>)"
proof -
  have a: "0 < length (states ex_outer_sdfg)" "states ex_outer_sdfg ! 0 = ex_outer_state"
    by (simp_all add: ex_outer_sdfg_def)
  have b: "exit_nodes (ex_api ex_nested_scope) ex_outer_state 1 = 3 # []"
    by (simp add: ex_api_sel ex_exit_nodes_def ex_outer_state_def ex_nested_scope_def)
  have c: "kind ex_outer_state 1 = EntryNode 0"
    by (simp add: ex_outer_state_def)
  have d: "maps ex_outer_state 0 = ex_map"
    by (simp add: ex_outer_state_def)
  have e: "states ex_nested_two = [ex_inner_state 10, ex_inner_state 20]"
          "arrays ex_nested_two = ex_inner_arrays"
    by (simp_all add: ex_nested_two_def)
  show ?thesis
    using apply_nested_eq[where nsdfg = ex_nested_two, OF a b c _ ex_reconnect, unfolded d e,
            OF ex_two_states]
    by (simp add: ex_outer_sdfg_def)
qed

lemma augment_shape: "shape (augment mapsize d) = mapsize @ shape d"
proof -
  have "shape (fold (\<lambda>sz d. d\<lparr>strides := total_size d # strides d,
                              total_size := total_size d * sz\<rparr>) xs d) = shape d" for xs
    by (induction xs arbitrary: d) simp_all
  then show ?thesis by (simp add: augment_def Let_def)
qed

lemma augment_offset: "offset (augment mapsize d) = replicate (length mapsize) 0 @ offset d"
proof -
  have "offset (fold (\<lambda>sz d. d\<lparr>strides := total_size d # strides d,
                              total_size := total_size d * sz\<rparr>) xs d) = offset d" for xs
    by (induction xs arbitrary: d) simp_all
  then show ?thesis by (simp add: augment_def Let_def)
qed

lemma augment_total_size: "total_size (augment mapsize d) = total_size d * prod_list mapsize"
proof -
  have "total_size (fold (\<lambda>sz d. d\<lparr>strides := total_size d # strides d,
                              total_size := total_size d * sz\<rparr>) xs d)
        = total_size d * prod_list xs" for xs
    by (induction xs arbitrary: d) (simp_all add: mult.assoc)
  then show ?thesis by (simp add: augment_def Let_def)
qed

lemma augment_strides:
  "\<exists>pre. length pre = length mapsize \<and> strides (augment mapsize d) = pre @ strides d"
proof -
  have "\<exists>pre. length pre = length xs \<and>
          strides (fold (\<lambda>sz d. d\<lparr>strides := total_size d # strides d,
                              total_size := total_size d * sz\<rparr>) xs d) = pre @ strides d" for xs
  proof (induction xs arbitrary: d)
    case Nil
    then show ?case by simp
  next
    case (Cons x xs)
    from Cons[of "d\<lparr>strides := total_size d # strides d, total_size := total_size d * x\<rparr>"]
    obtain pre where "length pre = length xs"
      "strides (fold (\<lambda>sz d. d\<lparr>strides := total_size d # strides d,
                              total_size := total_size d * sz\<rparr>) xs
         (d\<lparr>strides := total_size d # strides d, total_size := total_size d * x\<rparr>))
       = pre @ total_size d # strides d"
      by auto
    then show ?case
      by (intro exI[where x="pre @ [total_size d]"]) simp
  qed
  from this[of "rev mapsize"] show ?thesis by (simp add: augment_def Let_def)
qed

text \<open>
  Claim C4. After \<open>apply\<close> every border array has exactly as many new leading
  dimensions as the range of the outer map. The augmentation is inside the loop over the
  fissioned states and changes the registry of \<open>parent\<close>, which the states of a
  nested SDFG share: a transient that is a border array of two states is augmented
  twice. In the example the candidate is accepted, the outer map has one dimension of
  size \<open>8\<close>, and \<open>tmp\<close>, of shape \<open>[1]\<close>, ends with shape \<open>[8, 8, 1]\<close> and
  total size \<open>64\<close>.
\<close>

theorem MapFission_apply_augments_shared_border_twice:
  "MapFission_can_be_applied (ex_api ex_nested_scope) ex_outer_state 0 1 ex_nested_two 1
     ex_outer_sdfg = Inr True
   \<and> range_size (ex_api ex_nested_scope) (map_range ex_map) = [8]
   \<and> border_arrays [(11, 11), (13, 13)] (state_view (ex_inner_state 10)) [10] [14] = [''tmp'']
   \<and> map_option shape (arrays ex_nested_two ''tmp'') = Some [1]
   \<and> (case MapFission_apply (ex_api ex_nested_scope) 0 1 2 1 (ex_outer_sdfg, ex_nested_two) of
         Inl err \<Rightarrow> False
       | Inr (sdfg', nsdfg') \<Rightarrow>
           map_option shape (arrays nsdfg' ''tmp'') = Some [8, 8, 1]
         \<and> map_option strides (arrays nsdfg' ''tmp'') = Some [8, 1, 1]
         \<and> map_option offset (arrays nsdfg' ''tmp'') = Some [0, 0, 0]
         \<and> map_option total_size (arrays nsdfg' ''tmp'') = Some 64)"
proof -
  have "map_option shape (arrays ex_nested_two ''tmp'') = Some [1]"
    by (simp add: ex_nested_two_def ex_inner_arrays_def ex_array_def)
  moreover have "augment [8] (augment [8] ((ex_array [1] [1])\<lparr>transient := True\<rparr>)) =
     (ex_array [1] [1])\<lparr>transient := True, shape := [8, 8, 1], strides := [8, 1, 1],
        offset := [0, 0, 0], total_size := 64\<rparr>"
    by (simp add: augment_def ex_array_def)
  ultimately show ?thesis
    using inner_border[of 10] ex_nested_two_accepted ex_nested_two_apply
      ex_mapsize[of ex_nested_scope]
    by simp
qed

section \<open>Map fission: the edges around the nested SDFG\<close>

























section \<open>Map fission: the new maps\<close>






lemma used_maps_cong:
  assumes "nodes st' = nodes st" "\<forall>n\<in>set (nodes st). kind st' n = kind st n"
  shows "used_maps st' = used_maps st"
  using assms by (auto simp: used_maps_def intro!: arg_cong[where f=concat])




















section \<open>The matching stage on a store\<close>

lemma and_then_look [simp]:
  "and_then (look f) k s = (case f s of Inl e \<Rightarrow> (Inl e, s) | Inr x \<Rightarrow> k x s)"
  by (simp add: and_then_def look_def split: sum.splits)






end
